theory Spec2Isabelle
  imports Main "HOL-Library.Sublist" "HOL-Library.Char_ord" "HOL-Library.List_Lexorder"
begin

section \<open>Data model\<close>

text \<open>
  The three functions under verification are \<^verbatim>\<open>computeEntityParams\<close>,
  \<^verbatim>\<open>computeCreateDtoParams\<close> and \<^verbatim>\<open>computeUpdateDtoParams\<close>. Each folds over
  \<^verbatim>\<open>model.fields\<close> with \<^verbatim>\<open>reduce\<close>, mutating the visited field objects in
  place, pushing to local arrays and throwing on an unresolvable type name.
  The model threads the local arrays and the visited (possibly rewritten) field
  objects through an accumulator record, and a \<^verbatim>\<open>throw\<close> is the left injection
  of a sum.
\<close>

text \<open>
  Modelled from the spec: the directive constants of \<^verbatim>\<open>../annotations\<close> are not among
  the sources. The spec (section 3) has the annotation set of a field as a lookup by
  directive name over a closed list of directives. The read-only directive is the one the
  comment before the rule on defaults names: fields annotated with it are filtered out by
  the read-only test.
\<close>

datatype annotation =
    DTO_ENTITY_HIDDEN
  | DTO_RELATION_REQUIRED
  | DTO_CREATE_HIDDEN
  | DTO_UPDATE_HIDDEN
  | DTO_CREATE_OPTIONAL
  | DTO_UPDATE_OPTIONAL
  | DTO_TYPE_FULL_UPDATE
  | DTO_RELATION_INCLUDE_ID
  | DTO_RELATION_CAN_CREATE_ON_CREATE
  | DTO_RELATION_CAN_CONNECT_ON_CREATE
  | DTO_RELATION_CAN_CREATE_ON_UPDATE
  | DTO_RELATION_CAN_CONNECT_ON_UPDATE
  | DTO_RELATION_CAN_UPDATE_ON_UPDATE
  | DTO_CREATE_API_RESP
  | DTO_UPDATE_API_RESP
  | DTO_READ_ONLY

text \<open>
  Modelled from the spec: the kind tag of a field (section 3) is one of scalar, relation,
  nested-structured-type and enum.
\<close>

datatype field_kind = KScalar | KRelation | KType | KEnum

record dmmf_field =
  name :: string
  type :: string
  kind :: field_kind
  isList :: bool
  isRequired :: bool
  isReadOnly :: bool
  hasDefaultValue :: bool
  isId :: bool
  isUpdatedAt :: bool
  documentation :: "string option"
  annotations :: "annotation list"
  relationFromFields :: "string list"

record model =
  modelName :: string
  modelFields :: "dmmf_field list"
  outputEntity :: string
  outputDto :: string

record import_statement =
  from_path :: string
  destruct :: "string list"

record class_validator =
  cv_name :: string
  cv_value :: "string option"

record api_property =
  ap_name :: string
  ap_value :: string
  ap_noEncapsulation :: bool

text \<open>\<^verbatim>\<open>Partial<DMMF.Field>\<close>: an absent key is \<open>None\<close>.\<close>

record overrides =
  o_isRequired :: "bool option"
  o_isNullable :: "bool option"
  o_type :: "string option"
  o_isList :: "bool option"
  o_createApiResp :: "bool option"
  o_updateApiResp :: "bool option"

record decorators =
  apiProperties :: "api_property list option"
  classValidators :: "class_validator list option"

record parsed_field =
  pf_field :: dmmf_field
  pf_overrides :: overrides
  pf_decorators :: decorators

datatype error = Error string

record relation_input =
  ri_type :: string
  ri_imports :: "import_statement list"
  ri_generatedClasses :: "string list"
  ri_apiExtraModels :: "string list"
  ri_classValidators :: "class_validator list"

record api_options =
  opt_default :: "bool option"
  opt_type :: "bool option"

text \<open>The second argument of \<^verbatim>\<open>parseClassValidators\<close>: a string or a naming function.\<close>

datatype dto_name = NameString string | NameFunction "string \<Rightarrow> string"

text \<open>
  \<^verbatim>\<open>templateHelpers\<close>: the configuration flags and the naming conventions. Their bodies
  are not among the sources, so they are parameters.
\<close>

record template_helpers =
  noDependencies :: bool
  classValidation :: bool
  prismaClientImportPath :: string
  plainDtoName :: "string \<Rightarrow> string"
  plainDtoFilename :: "string \<Rightarrow> string"
  entityName :: "string \<Rightarrow> string"
  entityFilename :: "string \<Rightarrow> string"
  createDtoName :: "string \<Rightarrow> string"
  createDtoFilename :: "string \<Rightarrow> string"
  updateDtoName :: "string \<Rightarrow> string"
  updateDtoFilename :: "string \<Rightarrow> string"

text \<open>
  The functions imported from \<^verbatim>\<open>../helpers\<close>, \<^verbatim>\<open>../api-decorator\<close>,
  \<^verbatim>\<open>../class-validator\<close> and \<^verbatim>\<open>slash\<close> whose bodies are not among the sources
  and about whose results the spec says nothing precise are parameters too. An object
  literal \<^verbatim>\<open>{...field, ...overrides}\<close> passed to one of them is the pair of the field
  and the overrides. \<open>relationInputShape\<close> is what \<^verbatim>\<open>generateRelationInput\<close> returns
  when the target entity resolves.
\<close>

record helpers =
  getRelativePath :: "string \<Rightarrow> string \<Rightarrow> string"
  slash :: "string \<Rightarrow> string"
  PrismaScalarToFormat :: "string \<Rightarrow> string option"
  parseApiProperty :: "dmmf_field \<Rightarrow> overrides \<Rightarrow> api_options \<Rightarrow> api_property list"
  parseClassValidators :: "dmmf_field \<Rightarrow> overrides \<Rightarrow> dto_name \<Rightarrow> class_validator list"
  makeImportsFromPrismaClient :: "parsed_field list \<Rightarrow> string \<Rightarrow> import_statement list"
  relationInputShape ::
    "dmmf_field \<Rightarrow> model \<Rightarrow> model list \<Rightarrow> (string \<Rightarrow> string) \<Rightarrow>
     annotation \<Rightarrow> annotation \<Rightarrow> annotation \<Rightarrow> relation_input"

text \<open>The local arrays and flags of one computation, and the field objects visited so far.\<close>

record acc =
  importList :: "import_statement list"
  apiExtraModels :: "string list"
  extraClasses :: "string list"
  classValidatorsAcc :: "class_validator list"
  hasApiProperty :: bool
  hasApiRespProperty :: bool
  result :: "parsed_field list"
  visited :: "dmmf_field list"

text \<open>
  The returned parameter record. \<open>p_model\<close> is the \<^verbatim>\<open>model\<close> object that was passed
  in, in the state the computation leaves it: its field objects are the visited ones.
\<close>

record params =
  p_model :: model
  p_fields :: "parsed_field list"
  p_imports :: "import_statement list"
  p_extraClasses :: "string list"
  p_apiExtraModels :: "string list"

section \<open>Field classifiers and helpers\<close>

text \<open>
  Modelled from the spec: \<^verbatim>\<open>../field-classifiers\<close> is not among the sources. Section 4.1
  has them as total predicates over a field descriptor and its annotation set; section 3
  gives the flags they read.
\<close>

definition isAnnotatedWith :: "dmmf_field \<Rightarrow> annotation \<Rightarrow> bool" where
  "isAnnotatedWith field a = (a \<in> set (annotations field))"

definition isAnnotatedWithOneOf :: "dmmf_field \<Rightarrow> annotation list \<Rightarrow> bool" where
  "isAnnotatedWithOneOf field as = (\<exists>a\<in>set as. isAnnotatedWith field a)"

definition isRelation :: "dmmf_field \<Rightarrow> bool" where
  "isRelation field = (kind field = KRelation)"

definition isType :: "dmmf_field \<Rightarrow> bool" where
  "isType field = (kind field = KType)"

definition isRequired_cls :: "dmmf_field \<Rightarrow> bool" where
  "isRequired_cls field = isRequired field"

definition isReadOnly_cls :: "dmmf_field \<Rightarrow> bool" where
  "isReadOnly_cls field = (isReadOnly field \<or> isAnnotatedWith field DTO_READ_ONLY)"

definition isId_cls :: "dmmf_field \<Rightarrow> bool" where
  "isId_cls field = isId field"

definition isUpdatedAt_cls :: "dmmf_field \<Rightarrow> bool" where
  "isUpdatedAt_cls field = isUpdatedAt field"

definition isIdWithDefaultValue :: "dmmf_field \<Rightarrow> bool" where
  "isIdWithDefaultValue field = (isId field \<and> hasDefaultValue field)"

definition isRequiredWithDefaultValue :: "dmmf_field \<Rightarrow> bool" where
  "isRequiredWithDefaultValue field = (isRequired field \<and> hasDefaultValue field)"

text \<open>
  Modelled from the spec: the two directive lists of \<^verbatim>\<open>../annotations\<close>. Section 4.5:
  the create-time relation-modifier directives are the create and connect permissions;
  section 4.6: the update-time ones.
\<close>

definition DTO_RELATION_MODIFIERS_ON_CREATE :: "annotation list" where
  "DTO_RELATION_MODIFIERS_ON_CREATE =
     [DTO_RELATION_CAN_CREATE_ON_CREATE, DTO_RELATION_CAN_CONNECT_ON_CREATE]"


text \<open>Keeps the first occurrence of every element.\<close>

definition uniq :: "'a list \<Rightarrow> 'a list" where
  "uniq xs = rev (remdups (rev xs))"

text \<open>
  Modelled from the spec: \<^verbatim>\<open>getRelationScalars\<close> is not among the sources. Section 4.2:
  scan the relation fields and record, for each of their foreign-key field names, a
  back-reference to the relation field name. The object is an association list;
  \<^verbatim>\<open>Object.keys\<close> is \<open>map fst\<close>.
\<close>

definition getRelationScalars :: "dmmf_field list \<Rightarrow> (string \<times> string list) list" where
  "getRelationScalars fs =
     map (\<lambda>s. (s, map name (filter (\<lambda>f. isRelation f \<and> s \<in> set (relationFromFields f)) fs)))
       (uniq (concat (map relationFromFields (filter isRelation fs))))"

text \<open>\<^verbatim>\<open>Object.keys(relationScalarFields)\<close>.\<close>

definition relationScalarKeys :: "dmmf_field list \<Rightarrow> string list" where
  "relationScalarKeys fs = map fst (getRelationScalars fs)"

text \<open>
  Modelled from the spec: \<^verbatim>\<open>mapDMMFToParsedField\<close> is not among the sources. The output
  field pairs the field with its override set and its annotation specs (section 3); a key
  of the override set takes the place of the field's own value.
\<close>

definition mapDMMFToParsedField :: "dmmf_field \<Rightarrow> overrides \<Rightarrow> decorators \<Rightarrow> parsed_field" where
  "mapDMMFToParsedField field ov decs =
     \<lparr>pf_field = field, pf_overrides = ov, pf_decorators = decs\<rparr>"

definition resolvedIsRequired :: "parsed_field \<Rightarrow> bool" where
  "resolvedIsRequired pf =
     (case o_isRequired (pf_overrides pf) of Some b \<Rightarrow> b | None \<Rightarrow> isRequired (pf_field pf))"

definition resolvedIsNullable :: "parsed_field \<Rightarrow> bool option" where
  "resolvedIsNullable pf = o_isNullable (pf_overrides pf)"

definition resolvedType :: "parsed_field \<Rightarrow> string" where
  "resolvedType pf =
     (case o_type (pf_overrides pf) of Some t \<Rightarrow> t | None \<Rightarrow> type (pf_field pf))"

text \<open>
  Modelled from the spec: \<^verbatim>\<open>concatIntoArray\<close> and \<^verbatim>\<open>concatUniqueIntoArray\<close> are not
  among the sources. The first appends; the second appends the items whose name the target
  does not hold yet (section 3: validation-annotation names are deduplicated by name).
\<close>

definition concatIntoArray :: "'a list \<Rightarrow> 'a list \<Rightarrow> 'a list" where
  "concatIntoArray source target = target @ source"

fun concatUniqueIntoArray :: "class_validator list \<Rightarrow> class_validator list \<Rightarrow> class_validator list" where
  "concatUniqueIntoArray [] target = target"
| "concatUniqueIntoArray (item # source) target =
     concatUniqueIntoArray source
       (if cv_name item \<in> cv_name ` set target then target else target @ [item])"

text \<open>
  Modelled from the spec: \<^verbatim>\<open>zipImportStatementParams\<close> is not among the sources.
  Section 4.7: one record per distinct source, in the order the sources first appear, each
  holding the duplicate-free union of the requested names in their order of appearance.
\<close>

definition zipImportStatementParams :: "import_statement list \<Rightarrow> import_statement list" where
  "zipImportStatementParams items =
     map (\<lambda>s. \<lparr>from_path = s,
               destruct = uniq (concat (map destruct (filter (\<lambda>i. from_path i = s) items)))\<rparr>)
       (uniq (map from_path items))"

text \<open>A JavaScript string is truthy when it is present and not empty.\<close>

definition truthy :: "string option \<Rightarrow> bool" where
  "truthy s = (case s of None \<Rightarrow> False | Some v \<Rightarrow> v \<noteq> [])"

text \<open>\<^verbatim>\<open>String.prototype.replace\<close> with a string pattern: the first occurrence only.\<close>

fun replace :: "string \<Rightarrow> string \<Rightarrow> string \<Rightarrow> string" where
  "replace pat rep [] = (if pat = [] then rep else [])"
| "replace pat rep (c # cs) =
     (if prefix pat (c # cs) then rep @ drop (length pat) (c # cs)
      else c # replace pat rep cs)"

definition quote :: string where
  "quote = [CHR 0x27]"

definition path_sep :: string where
  "path_sep = ''/''"

text \<open>The message of the two \<^verbatim>\<open>throw new Error\<close> sites.\<close>

definition notFoundMessage :: "string \<Rightarrow> string \<Rightarrow> string \<Rightarrow> string \<Rightarrow> string" where
  "notFoundMessage what ftype mname fname =
     ''related '' @ what @ '' '' @ quote @ ftype @ quote @ '' for '' @ quote @ mname @ ''.'' @ fname
       @ quote @ '' not found''"

text \<open>
  The guarded \<^verbatim>\<open>imports.push\<close> that every pipeline repeats: nothing is pushed when a
  record with the same source already destructures the name.
\<close>

definition pushImport :: "import_statement list \<Rightarrow> string \<Rightarrow> string \<Rightarrow> import_statement list" where
  "pushImport imps importName importFrom =
     (if \<not> (\<exists>item\<in>set imps. importName \<in> set (destruct item) \<and> from_path item = importFrom)
      then imps @ [\<lparr>from_path = importFrom, destruct = [importName]\<rparr>]
      else imps)"

text \<open>
  Modelled from the spec: \<^verbatim>\<open>generateRelationInput\<close> is not among the sources.
  Section 4.3: resolve the target entity by name in the full entity set and fail with a
  resolution error carrying the owning entity and field names if it is absent. What it
  returns otherwise is the parameter \<open>relationInputShape\<close>.
\<close>

definition generateRelationInput ::
  "helpers \<Rightarrow> dmmf_field \<Rightarrow> model \<Rightarrow> model list \<Rightarrow> (string \<Rightarrow> string) \<Rightarrow>
   annotation \<Rightarrow> annotation \<Rightarrow> annotation \<Rightarrow> error + relation_input" where
  "generateRelationInput h field m allModels preAndSuffixClassName canCreate canConnect canUpdate =
     (case find (\<lambda>m'. modelName m' = type field) allModels of
        None \<Rightarrow> Inl (Error (notFoundMessage ''model'' (type field) (modelName m) (name field)))
      | Some _ \<Rightarrow>
          Inr (relationInputShape h field m allModels preAndSuffixClassName
                 canCreate canConnect canUpdate))"

text \<open>
  The last statement of every fold body but one: under \<^verbatim>\<open>noDependencies\<close> the type name
  of the field object is rewritten in place.
\<close>

definition rewriteType :: "template_helpers \<Rightarrow> dmmf_field \<Rightarrow> dmmf_field" where
  "rewriteType th field =
     (if noDependencies th then
        (if type field = ''Json'' then field\<lparr>type := ''Object''\<rparr>
         else if type field = ''Decimal'' then field\<lparr>type := ''Float''\<rparr>
         else field)
      else field)"

text \<open>
  The first statement of the fold body of both input pipelines: a tracked foreign-key
  scalar that carries the relation-include-identifier directive has its read-only flag
  cleared in place.
\<close>

definition reincludeIdentifier :: "string list \<Rightarrow> dmmf_field \<Rightarrow> dmmf_field" where
  "reincludeIdentifier relationScalarFieldNames field =
     (if isAnnotatedWith field DTO_RELATION_INCLUDE_ID
         \<and> name field \<in> set relationScalarFieldNames
      then field\<lparr>isReadOnly := False\<rparr> else field)"

text \<open>\<^verbatim>\<open>return result\<close> inside the fold body: the field is visited and nothing is appended.\<close>

definition skip :: "acc \<Rightarrow> dmmf_field \<Rightarrow> acc" where
  "skip st field = st\<lparr>visited := visited st @ [field]\<rparr>"

definition emptyAcc :: acc where
  "emptyAcc = \<lparr>importList = [], apiExtraModels = [], extraClasses = [], classValidatorsAcc = [],
     hasApiProperty = False, hasApiRespProperty = False, result = [], visited = []\<rparr>"

definition noOverrides :: overrides where
  "noOverrides = \<lparr>o_isRequired = None, o_isNullable = None, o_type = None, o_isList = None,
     o_createApiResp = None, o_updateApiResp = None\<rparr>"

text \<open>
  \<^verbatim>\<open>model.fields.reduce(callback, [])\<close> with a callback that may throw: the fields in
  declaration order, each with the fields that follow it; a throw ends the fold.
\<close>

fun reduceFields ::
  "(dmmf_field list \<Rightarrow> dmmf_field \<Rightarrow> acc \<Rightarrow> error + acc) \<Rightarrow> acc \<Rightarrow> dmmf_field list \<Rightarrow> error + acc" where
  "reduceFields body st [] = Inr st"
| "reduceFields body st (field # rest) =
     (case body rest field st of
        Inl e \<Rightarrow> Inl e
      | Inr st' \<Rightarrow> reduceFields body st' rest)"

section \<open>The Entity pipeline\<close>

text \<open>Lines 56 to 92 of \<^verbatim>\<open>computeEntityParams\<close>.\<close>

definition entityTypeImport ::
  "template_helpers \<Rightarrow> helpers \<Rightarrow> model \<Rightarrow> model list \<Rightarrow> dmmf_field \<Rightarrow>
   import_statement list \<Rightarrow> error + import_statement list" where
  "entityTypeImport th h m allModels field imps =
     (if isType field \<and> type field \<noteq> modelName m then
        (case find (\<lambda>m'. modelName m' = type field) allModels of
           None \<Rightarrow> Inl (Error (notFoundMessage ''type'' (type field) (modelName m) (name field)))
         | Some modelToImportFrom \<Rightarrow>
             Inr (pushImport imps (plainDtoName th (type field))
                    (slash h (getRelativePath h (outputEntity m) (outputDto modelToImportFrom)
                       @ path_sep @ plainDtoFilename th (type field)))))
      else Inr imps)"

text \<open>Lines 97 to 140.\<close>

definition entityRelation ::
  "template_helpers \<Rightarrow> helpers \<Rightarrow> model \<Rightarrow> model list \<Rightarrow> dmmf_field \<Rightarrow> overrides \<Rightarrow>
   import_statement list \<Rightarrow> error + (overrides \<times> import_statement list)" where
  "entityRelation th h m allModels field ov imps =
     (if isRelation field then
        (let ov1 = ov\<lparr>o_isRequired := Some (isAnnotatedWith field DTO_RELATION_REQUIRED),
                      o_isNullable := Some (if isList field then False
                                            else if isRequired field then False
                                            else \<not> isAnnotatedWith field DTO_RELATION_REQUIRED)\<rparr>
         in if type field \<noteq> modelName m then
              (case find (\<lambda>m'. modelName m' = type field) allModels of
                 None \<Rightarrow>
                   Inl (Error (notFoundMessage ''model'' (type field) (modelName m) (name field)))
               | Some modelToImportFrom \<Rightarrow>
                   Inr (ov1, pushImport imps (entityName th (type field))
                          (slash h (getRelativePath h (outputEntity m) (outputEntity modelToImportFrom)
                             @ path_sep @ entityFilename th (type field)))))
            else Inr (ov1, imps))
      else Inr (ov, imps))"

text \<open>
  Lines 144 to 154: \<open>fs\<close> is \<^verbatim>\<open>model.fields\<close> as it stands when the field is reached.
\<close>

definition isAnyRelationRequired :: "dmmf_field list \<Rightarrow> string list \<Rightarrow> bool" where
  "isAnyRelationRequired fs relationNames =
     (\<exists>relationFieldName\<in>set relationNames.
        (case find (\<lambda>anyField. name anyField = relationFieldName) fs of
           None \<Rightarrow> False
         | Some relationField \<Rightarrow>
             isRequired_cls relationField \<or> isAnnotatedWith relationField DTO_RELATION_REQUIRED))"

text \<open>Lines 142 to 158.\<close>

definition entityRelationScalar ::
  "(string \<times> string list) list \<Rightarrow> dmmf_field list \<Rightarrow> dmmf_field \<Rightarrow> overrides \<Rightarrow> overrides" where
  "entityRelationScalar relationScalarFields fs field ov =
     (if name field \<in> set (map fst relationScalarFields) then
        (case map_of relationScalarFields (name field) of
           None \<Rightarrow> ov
         | Some relationNames \<Rightarrow>
             ov\<lparr>o_isRequired := Some True,
                o_isNullable := Some (\<not> isAnyRelationRequired fs relationNames)\<rparr>)
      else ov)"

text \<open>Lines 160 to 193: the annotation specs, the coercion import and the flag.\<close>

definition primitiveTypes :: "string list" where
  "primitiveTypes = [''String'', ''Json'', ''Boolean'']"

definition typeImport :: import_statement where
  "typeImport = \<lparr>from_path = ''class-transformer'', destruct = [''Type'']\<rparr>"

definition entityApiProperties ::
  "template_helpers \<Rightarrow> helpers \<Rightarrow> dmmf_field \<Rightarrow> import_statement list \<Rightarrow> bool \<Rightarrow>
   decorators \<times> import_statement list \<times> bool" where
  "entityApiProperties th h field imps hasApi =
     (if \<not> noDependencies th then
        (let props0 = parseApiProperty h field
                        (noOverrides\<lparr>o_isRequired := Some (isRequired field),
                                     o_isNullable := Some (\<not> isRequired field)\<rparr>)
                        \<lparr>opt_default = Some False, opt_type = None\<rparr>;
             unformatted = (PrismaScalarToFormat h (type field) = None);
             plain = (type field \<in> set primitiveTypes);
             props1 = (if unformatted
                       then props0 @ [\<lparr>ap_name = ''type'',
                                       ap_value = (if plain then type field
                                                   else ''() => '' @ type field),
                                       ap_noEncapsulation = True\<rparr>]
                       else props0);
             coerce = (unformatted \<and> \<not> plain \<and> kind field \<noteq> KEnum);
             props2 = (if coerce
                       then props1 @ [\<lparr>ap_name = ''type_decorator'', ap_value = type field,
                                       ap_noEncapsulation = True\<rparr>]
                       else props1)
         in (\<lparr>apiProperties = Some props2, classValidators = None\<rparr>,
             (if coerce then typeImport # imps else imps),
             (if props2 \<noteq> [] then True else hasApi)))
      else (\<lparr>apiProperties = None, classValidators = None\<rparr>, imps, hasApi))"

text \<open>
  The body of the \<^verbatim>\<open>reduce\<close> callback; \<open>rest\<close> are the field objects after
  \<open>field\<close>, not yet visited, so \<^verbatim>\<open>model.fields\<close> reads \<open>visited st @ field # rest\<close>.
\<close>

definition entityField ::
  "template_helpers \<Rightarrow> helpers \<Rightarrow> model \<Rightarrow> model list \<Rightarrow> (string \<times> string list) list \<Rightarrow>
   dmmf_field list \<Rightarrow> dmmf_field \<Rightarrow> acc \<Rightarrow> error + acc" where
  "entityField th h m allModels relationScalarFields rest field st =
     (let ov0 = noOverrides\<lparr>o_isRequired := Some True,
                            o_isNullable := Some (\<not> isRequired field)\<rparr>
      in if isAnnotatedWith field DTO_ENTITY_HIDDEN then Inr (skip st field)
         else
           (case entityTypeImport th h m allModels field (importList st) of
              Inl e \<Rightarrow> Inl e
            | Inr imps1 \<Rightarrow>
                (case entityRelation th h m allModels field ov0 imps1 of
                   Inl e \<Rightarrow> Inl e
                 | Inr (ov1, imps2) \<Rightarrow>
                     (let ov2 = entityRelationScalar relationScalarFields
                                  (visited st @ field # rest) field ov1;
                          (decs, imps3, hasApi) =
                             entityApiProperties th h field imps2 (hasApiProperty st);
                          field' = rewriteType th field
                      in Inr (st\<lparr>importList := imps3,
                                 hasApiProperty := hasApi,
                                 result := result st @ [mapDMMFToParsedField field' ov2 decs],
                                 visited := visited st @ [field']\<rparr>)))))"

definition swaggerImport :: "acc \<Rightarrow> import_statement list" where
  "swaggerImport st =
     (if apiExtraModels st \<noteq> [] \<or> hasApiProperty st \<or> hasApiRespProperty st then
        \<lparr>from_path = ''@nestjs/swagger'',
         destruct = (if apiExtraModels st \<noteq> [] then [''ApiExtraModels''] else [])
                  @ (if hasApiProperty st then [''ApiProperty''] else [])
                  @ (if hasApiRespProperty st then [''ApiResponseProperty''] else [])\<rparr>
        # importList st
      else importList st)"

definition exposeImport :: import_statement where
  "exposeImport = \<lparr>from_path = ''class-transformer'', destruct = [''Expose'']\<rparr>"

definition computeEntityParams ::
  "template_helpers \<Rightarrow> helpers \<Rightarrow> model \<Rightarrow> model list \<Rightarrow> error + params" where
  "computeEntityParams th h m allModels =
     (case reduceFields (entityField th h m allModels (getRelationScalars (modelFields m)))
             emptyAcc (modelFields m) of
        Inl e \<Rightarrow> Inl e
      | Inr st \<Rightarrow>
          (let importPrismaClient =
                 makeImportsFromPrismaClient h (result st) (prismaClientImportPath th)
           in Inr \<lparr>p_model = m\<lparr>modelFields := visited st\<rparr>,
                   p_fields = result st,
                   p_imports = zipImportStatementParams
                                 (importPrismaClient @ exposeImport # swaggerImport st),
                   p_extraClasses = [],
                   p_apiExtraModels = apiExtraModels st\<rparr>))"

section \<open>The Create pipeline\<close>

text \<open>
  \<^verbatim>\<open>field.documentation += x\<close>: an absent documentation reads as the text
  \<^verbatim>\<open>undefined\<close>.
\<close>

definition appendDocumentation :: "dmmf_field \<Rightarrow> string \<Rightarrow> dmmf_field" where
  "appendDocumentation field x =
     field\<lparr>documentation :=
       Some ((case documentation field of None \<Rightarrow> ''undefined'' | Some d \<Rightarrow> d) @ x)\<rparr>"

definition coercionNote :: "string \<Rightarrow> string" where
  "coercionNote v = [CHR 0x0A] @ ''%'' @ replace ''() => '' [] v @ ''%''"

text \<open>
  Lines 117 to 125, and lines 107 to 115 of \<^verbatim>\<open>computeUpdateDtoParams\<close>: what the
  relation input brings is moved into the local arrays.
\<close>

definition absorbRelationInput :: "template_helpers \<Rightarrow> relation_input \<Rightarrow> acc \<Rightarrow> acc" where
  "absorbRelationInput th relationInputType st =
     st\<lparr>importList := concatIntoArray (ri_imports relationInputType) (importList st),
        extraClasses := concatIntoArray (ri_generatedClasses relationInputType) (extraClasses st),
        apiExtraModels :=
          (if \<not> noDependencies th
           then concatIntoArray (ri_apiExtraModels relationInputType) (apiExtraModels st)
           else apiExtraModels st),
        classValidatorsAcc :=
          concatUniqueIntoArray (ri_classValidators relationInputType) (classValidatorsAcc st)\<rparr>"

text \<open>Lines 103 to 113: the overrides of a relation that has more than one import.\<close>

definition compositeOverrides :: "dmmf_field \<Rightarrow> relation_input \<Rightarrow> overrides \<Rightarrow> overrides" where
  "compositeOverrides field relationInputType ov =
     (let isDtoRelationRequired = isAnnotatedWith field DTO_RELATION_REQUIRED;
          ov1 = (if isDtoRelationRequired then ov\<lparr>o_isRequired := Some True\<rparr> else ov);
          ov2 = (if isList field then ov1\<lparr>o_isRequired := Some False\<rparr> else ov1)
      in ov2\<lparr>o_type := Some (ri_type relationInputType)\<rparr>)"

text \<open>
  Lines 127 to 130: the value of the validator spec named \<^verbatim>\<open>Type\<close>, when there is one
  and its value is truthy.
\<close>

definition coercionTarget :: "relation_input \<Rightarrow> string option" where
  "coercionTarget relationInputType =
     (case find (\<lambda>cv. cv_name cv = ''Type'') (ri_classValidators relationInputType) of
        None \<Rightarrow> None
      | Some t \<Rightarrow>
          (case cv_value t of
             None \<Rightarrow> None
           | Some v \<Rightarrow> if v \<noteq> [] then Some v else None))"

text \<open>
  Lines 86 to 138 of \<^verbatim>\<open>computeCreateDtoParams\<close>. \<open>Inr None\<close> is the early
  \<^verbatim>\<open>return result\<close>; \<open>fs\<close> is \<^verbatim>\<open>model.fields\<close> as it stands at the call.
\<close>

definition createRelation ::
  "template_helpers \<Rightarrow> helpers \<Rightarrow> model \<Rightarrow> model list \<Rightarrow> dmmf_field list \<Rightarrow> dmmf_field \<Rightarrow>
   overrides \<Rightarrow> acc \<Rightarrow> error + (dmmf_field \<times> overrides \<times> acc) option" where
  "createRelation th h m allModels fs field ov st =
     (if isRelation field then
        (if \<not> isAnnotatedWithOneOf field DTO_RELATION_MODIFIERS_ON_CREATE then Inr None
         else
           (case generateRelationInput h field (m\<lparr>modelFields := fs\<rparr>) allModels (createDtoName th)
                   DTO_RELATION_CAN_CREATE_ON_CREATE DTO_RELATION_CAN_CONNECT_ON_CREATE
                   DTO_RELATION_CAN_UPDATE_ON_UPDATE of
              Inl e \<Rightarrow> Inl e
            | Inr relationInputType \<Rightarrow>
                (if length (ri_imports relationInputType) > 1 then
                   Inr (Some (field, compositeOverrides field relationInputType ov,
                              absorbRelationInput th relationInputType st))
                 else
                   (let st1 = st\<lparr>importList :=
                                   concatIntoArray (ri_imports relationInputType) (importList st)\<rparr>
                    in case coercionTarget relationInputType of
                         None \<Rightarrow> Inr (Some (field, ov, st1))
                       | Some v \<Rightarrow>
                           Inr (Some (appendDocumentation field (coercionNote v),
                                      ov\<lparr>o_type := Some v\<rparr>, st1))))))
      else Inr (Some (field, ov, st)))"

text \<open>Lines 160 to 195.\<close>

definition createTypeImport ::
  "template_helpers \<Rightarrow> helpers \<Rightarrow> model \<Rightarrow> model list \<Rightarrow> dmmf_field \<Rightarrow>
   import_statement list \<Rightarrow> error + import_statement list" where
  "createTypeImport th h m allModels field imps =
     (if isType field \<and> type field \<noteq> modelName m then
        (case find (\<lambda>m'. modelName m' = type field) allModels of
           None \<Rightarrow> Inl (Error (notFoundMessage ''type'' (type field) (modelName m) (name field)))
         | Some modelToImportFrom \<Rightarrow>
             Inr (pushImport imps (createDtoName th (type field))
                    (slash h (getRelativePath h (outputDto m) (outputDto modelToImportFrom)
                       @ path_sep @ createDtoFilename th (type field)))))
      else Inr imps)"

text \<open>Lines 197 to 210.\<close>

definition createValidators ::
  "template_helpers \<Rightarrow> helpers \<Rightarrow> dmmf_field \<Rightarrow> overrides \<Rightarrow> class_validator list \<Rightarrow>
   class_validator list option \<times> class_validator list" where
  "createValidators th h field ov cvs =
     (if classValidation th then
        (let hint = (case o_type ov of
                       None \<Rightarrow> NameFunction (createDtoName th)
                     | Some t \<Rightarrow>
                         (let s = replace ''() =>'' [] t
                          in if s \<noteq> [] then NameString s else NameFunction (createDtoName th)));
             found = parseClassValidators h field ov hint
         in (Some found, concatUniqueIntoArray found cvs))
      else (None, cvs))"

text \<open>Lines 212 to 231.\<close>

definition createApiProperties ::
  "template_helpers \<Rightarrow> helpers \<Rightarrow> dmmf_field \<Rightarrow> overrides \<Rightarrow> bool \<Rightarrow> bool \<Rightarrow>
   overrides \<times> api_property list option \<times> bool \<times> bool" where
  "createApiProperties th h field ov hasApi hasResp =
     (if \<not> noDependencies th then
        (let createApiResp = isAnnotatedWith field DTO_CREATE_API_RESP;
             props0 = parseApiProperty h field noOverrides
                        \<lparr>opt_default = None, opt_type = Some (\<not> truthy (o_type ov))\<rparr>;
             props1 = (if isList field
                       then props0 @ [\<lparr>ap_name = ''isArray'', ap_value = ''true'',
                                       ap_noEncapsulation = False\<rparr>]
                       else props0);
             props2 = (case o_type ov of
                         None \<Rightarrow> props1
                       | Some t \<Rightarrow>
                           if t \<noteq> [] then props1 @ [\<lparr>ap_name = ''type'', ap_value = t,
                                                      ap_noEncapsulation = True\<rparr>]
                           else props1)
         in (ov\<lparr>o_createApiResp := Some createApiResp\<rparr>, Some props2,
             (if props2 \<noteq> [] then True else hasApi), (hasResp \<or> createApiResp)))
      else (ov, None, hasApi, hasResp))"

text \<open>
  The body of the \<^verbatim>\<open>reduce\<close> callback; \<open>rest\<close> are the field objects after
  \<open>field0\<close>, not yet visited.
\<close>

definition createField ::
  "template_helpers \<Rightarrow> helpers \<Rightarrow> model \<Rightarrow> model list \<Rightarrow> string list \<Rightarrow>
   dmmf_field list \<Rightarrow> dmmf_field \<Rightarrow> acc \<Rightarrow> error + acc" where
  "createField th h m allModels relationScalarFieldNames rest field0 st =
     (let ov0 = noOverrides\<lparr>o_createApiResp := Some False\<rparr>;
          field = reincludeIdentifier relationScalarFieldNames field0
      in if isAnnotatedWith field DTO_CREATE_HIDDEN then Inr (skip st field)
         else if isReadOnly_cls field then Inr (skip st field)
         else
           (case createRelation th h m allModels (visited st @ field # rest) field ov0 st of
              Inl e \<Rightarrow> Inl e
            | Inr None \<Rightarrow> Inr (skip st field)
            | Inr (Some (field1, ov1, st1)) \<Rightarrow>
                if \<not> isAnnotatedWith field1 DTO_RELATION_INCLUDE_ID
                   \<and> name field1 \<in> set relationScalarFieldNames
                then Inr (skip st1 field1)
                else
                  (let isDtoOptional = isAnnotatedWith field1 DTO_CREATE_OPTIONAL
                   in if \<not> isDtoOptional
                         \<and> (isIdWithDefaultValue field1 \<or> isUpdatedAt_cls field1
                            \<or> isRequiredWithDefaultValue field1)
                      then Inr (skip st1 field1)
                      else
                        (let ov2 = (if isDtoOptional then ov1\<lparr>o_isRequired := Some False\<rparr>
                                    else ov1)
                         in case createTypeImport th h m allModels field1 (importList st1) of
                              Inl e \<Rightarrow> Inl e
                            | Inr imps \<Rightarrow>
                                (let (found, cvs) =
                                       createValidators th h field1 ov2 (classValidatorsAcc st1);
                                     (ov3, props, hasApi, hasResp) =
                                       createApiProperties th h field1 ov2
                                         (hasApiProperty st1) (hasApiRespProperty st1);
                                     field2 = rewriteType th field1
                                 in Inr (st1\<lparr>importList := imps,
                                             classValidatorsAcc := cvs,
                                             hasApiProperty := hasApi,
                                             hasApiRespProperty := hasResp,
                                             result := result st1 @
                                               [mapDMMFToParsedField field2 ov3
                                                  \<lparr>apiProperties = props,
                                                   classValidators = found\<rparr>],
                                             visited := visited st1 @ [field2]\<rparr>))))))"

text \<open>Lines 249 to 263, the same in the Update pipeline: the two \<^verbatim>\<open>unshift\<close>s.\<close>

definition validatorImports :: "class_validator list \<Rightarrow> import_statement list \<Rightarrow> import_statement list" where
  "validatorImports cvs imps =
     (if cvs \<noteq> [] then
        \<lparr>from_path = ''class-validator'',
         destruct = sort (map cv_name (filter (\<lambda>cv. cv_name cv \<noteq> ''Type'') cvs))\<rparr>
        # (if find (\<lambda>cv. cv_name cv = ''Type'') cvs \<noteq> None then typeImport # imps else imps)
      else imps)"

text \<open>The list handed to \<^verbatim>\<open>zipImportStatementParams\<close> by both input pipelines.\<close>

definition dtoImports :: "template_helpers \<Rightarrow> helpers \<Rightarrow> acc \<Rightarrow> import_statement list" where
  "dtoImports th h st =
     makeImportsFromPrismaClient h (result st) (prismaClientImportPath th)
       @ validatorImports (classValidatorsAcc st) (swaggerImport st)"

definition dtoParams :: "template_helpers \<Rightarrow> helpers \<Rightarrow> model \<Rightarrow> acc \<Rightarrow> params" where
  "dtoParams th h m st =
     \<lparr>p_model = m\<lparr>modelFields := visited st\<rparr>,
      p_fields = result st,
      p_imports = zipImportStatementParams (dtoImports th h st),
      p_extraClasses = extraClasses st,
      p_apiExtraModels = apiExtraModels st\<rparr>"

definition computeCreateDtoParams ::
  "template_helpers \<Rightarrow> helpers \<Rightarrow> model \<Rightarrow> model list \<Rightarrow> error + params" where
  "computeCreateDtoParams th h m allModels =
     (case reduceFields
             (createField th h m allModels (relationScalarKeys (modelFields m)))
             emptyAcc (modelFields m) of
        Inl e \<Rightarrow> Inl e
      | Inr st \<Rightarrow> Inr (dtoParams th h m st))"

section \<open>The Update pipeline\<close>




text \<open>Lines 197 to 217.\<close>

definition updateApiProperties ::
  "template_helpers \<Rightarrow> helpers \<Rightarrow> dmmf_field \<Rightarrow> overrides \<Rightarrow> bool \<Rightarrow> bool \<Rightarrow>
   overrides \<times> api_property list option \<times> bool \<times> bool" where
  "updateApiProperties th h field ov hasApi hasResp =
     (if \<not> noDependencies th then
        (let updateApiResp = isAnnotatedWith field DTO_UPDATE_API_RESP;
             ov1 = ov\<lparr>o_updateApiResp := Some updateApiResp\<rparr>;
             props0 = parseApiProperty h field (ov1\<lparr>o_isNullable := Some (\<not> isRequired field)\<rparr>)
                        \<lparr>opt_default = None, opt_type = Some (\<not> truthy (o_type ov1))\<rparr>;
             props1 = (case o_type ov1 of
                         None \<Rightarrow> props0
                       | Some t \<Rightarrow>
                           if t \<noteq> [] then props0 @ [\<lparr>ap_name = ''type'', ap_value = t,
                                                      ap_noEncapsulation = True\<rparr>]
                           else props0)
         in (ov1, Some props1, (if props1 \<noteq> [] then True else hasApi), (hasResp \<or> updateApiResp)))
      else (ov, None, hasApi, hasResp))"



section \<open>Auxiliary notions\<close>

text \<open>
  The notions in which the statements below are phrased, and the parts into which the fold
  bodies are cut for the proofs.
\<close>

text \<open>
  A declared type that cannot be resolved: it is not the name of the owning entity and no
  entity of the full set has it as its name.
\<close>

definition unresolved :: "model \<Rightarrow> model list \<Rightarrow> dmmf_field \<Rightarrow> bool" where
  "unresolved m allModels field =
     (type field \<noteq> modelName m \<and> type field \<notin> modelName ` set allModels)"


text \<open>
  The override set, the annotation specs, the visited field object and the output field that
  the Entity fold body computes for one field; none of them depends on the local arrays.
\<close>

definition relationOverrides :: "dmmf_field \<Rightarrow> overrides \<Rightarrow> overrides" where
  "relationOverrides field ov =
     (if isRelation field then
        ov\<lparr>o_isRequired := Some (isAnnotatedWith field DTO_RELATION_REQUIRED),
           o_isNullable := Some (if isList field then False
                                 else if isRequired field then False
                                 else \<not> isAnnotatedWith field DTO_RELATION_REQUIRED)\<rparr>
      else ov)"

definition entityOverrides :: "(string \<times> string list) list \<Rightarrow> dmmf_field list \<Rightarrow> dmmf_field \<Rightarrow> overrides" where
  "entityOverrides rsf fs field =
     entityRelationScalar rsf fs field
       (relationOverrides field
          (noOverrides\<lparr>o_isRequired := Some True, o_isNullable := Some (\<not> isRequired field)\<rparr>))"

definition entityDecorators :: "template_helpers \<Rightarrow> helpers \<Rightarrow> dmmf_field \<Rightarrow> decorators" where
  "entityDecorators th h field = fst (entityApiProperties th h field [] False)"

definition entityVisited :: "template_helpers \<Rightarrow> dmmf_field \<Rightarrow> dmmf_field" where
  "entityVisited th field =
     (if isAnnotatedWith field DTO_ENTITY_HIDDEN then field else rewriteType th field)"

definition entityParsed :: "template_helpers \<Rightarrow> helpers \<Rightarrow> model \<Rightarrow> dmmf_field \<Rightarrow> parsed_field" where
  "entityParsed th h m field =
     mapDMMFToParsedField (rewriteType th field)
       (entityOverrides (getRelationScalars (modelFields m)) (modelFields m) field)
       (entityDecorators th h field)"

text \<open>The lookup of lines 144 to 154 reads the name, the required flag and the annotations only.\<close>

definition sameButType :: "dmmf_field \<Rightarrow> dmmf_field \<Rightarrow> bool" where
  "sameButType f f' = (f' = f\<lparr>type := type f'\<rparr>)"

text \<open>
  A tracked foreign key is named as a foreign key by at least one relation field of the
  entity; an owning relation is required when the schema requires it or it carries the
  relation-required directive.
\<close>

definition isTrackedForeignKey :: "model \<Rightarrow> dmmf_field \<Rightarrow> bool" where
  "isTrackedForeignKey m field =
     (\<exists>r\<in>set (modelFields m). isRelation r \<and> name field \<in> set (relationFromFields r))"

definition anyOwningRelationRequired :: "model \<Rightarrow> dmmf_field \<Rightarrow> bool" where
  "anyOwningRelationRequired m field =
     (\<exists>r\<in>set (modelFields m). isRelation r \<and> name field \<in> set (relationFromFields r)
        \<and> (isRequired r \<or> isAnnotatedWith r DTO_RELATION_REQUIRED))"

text \<open>
  What the synthesizer returns to the Create pipeline for a field, when the field objects of
  the entity are \<open>fs\<close> and the target entity resolves.
\<close>

definition createInput ::
  "template_helpers \<Rightarrow> helpers \<Rightarrow> model \<Rightarrow> model list \<Rightarrow> dmmf_field list \<Rightarrow> dmmf_field \<Rightarrow> relation_input" where
  "createInput th h m allModels fs field =
     relationInputShape h field (m\<lparr>modelFields := fs\<rparr>) allModels (createDtoName th)
       DTO_RELATION_CAN_CREATE_ON_CREATE DTO_RELATION_CAN_CONNECT_ON_CREATE
       DTO_RELATION_CAN_UPDATE_ON_UPDATE"

text \<open>
  The fields that the Create pipeline keeps when nothing throws: the conjunction of the
  tests of lines 84 to 155 that do not return early.
\<close>

definition createKeeps :: "string list \<Rightarrow> dmmf_field \<Rightarrow> bool" where
  "createKeeps rsn field0 =
     (\<not> isAnnotatedWith field0 DTO_CREATE_HIDDEN
      \<and> \<not> isReadOnly_cls (reincludeIdentifier rsn field0)
      \<and> (isRelation field0 \<longrightarrow> isAnnotatedWithOneOf field0 DTO_RELATION_MODIFIERS_ON_CREATE)
      \<and> \<not> (\<not> isAnnotatedWith field0 DTO_RELATION_INCLUDE_ID \<and> name field0 \<in> set rsn)
      \<and> (isAnnotatedWith field0 DTO_CREATE_OPTIONAL
          \<or> \<not> (isIdWithDefaultValue field0 \<or> isUpdatedAt field0 \<or> isRequiredWithDefaultValue field0)))"

text \<open>
  The Create fold body after the relation block (lines 140 to 238), as a function of the
  field object, the overrides and the local arrays the relation block leaves behind.
\<close>

definition tailKeeps :: "string list \<Rightarrow> dmmf_field \<Rightarrow> bool" where
  "tailKeeps rsn field1 =
     (\<not> (\<not> isAnnotatedWith field1 DTO_RELATION_INCLUDE_ID \<and> name field1 \<in> set rsn)
      \<and> (isAnnotatedWith field1 DTO_CREATE_OPTIONAL
          \<or> \<not> (isIdWithDefaultValue field1 \<or> isUpdatedAt field1 \<or> isRequiredWithDefaultValue field1)))"

definition createTail ::
  "template_helpers \<Rightarrow> helpers \<Rightarrow> model \<Rightarrow> model list \<Rightarrow> string list \<Rightarrow> dmmf_field \<Rightarrow>
   overrides \<Rightarrow> acc \<Rightarrow> error + acc" where
  "createTail th h m allModels rsn field1 ov1 st1 =
     (if \<not> tailKeeps rsn field1 then Inr (skip st1 field1)
      else
        (let ov2 = (if isAnnotatedWith field1 DTO_CREATE_OPTIONAL
                    then ov1\<lparr>o_isRequired := Some False\<rparr> else ov1)
         in case createTypeImport th h m allModels field1 (importList st1) of
              Inl e \<Rightarrow> Inl e
            | Inr imps \<Rightarrow>
                Inr (st1\<lparr>importList := imps,
                         classValidatorsAcc :=
                           snd (createValidators th h field1 ov2 (classValidatorsAcc st1)),
                         hasApiProperty :=
                           fst (snd (snd (createApiProperties th h field1 ov2
                                  (hasApiProperty st1) (hasApiRespProperty st1)))),
                         hasApiRespProperty :=
                           snd (snd (snd (createApiProperties th h field1 ov2
                                  (hasApiProperty st1) (hasApiRespProperty st1)))),
                         result := result st1 @
                           [mapDMMFToParsedField (rewriteType th field1)
                              (fst (createApiProperties th h field1 ov2
                                  (hasApiProperty st1) (hasApiRespProperty st1)))
                              \<lparr>apiProperties =
                                 fst (snd (createApiProperties th h field1 ov2
                                  (hasApiProperty st1) (hasApiRespProperty st1))),
                               classValidators =
                                 fst (createValidators th h field1 ov2 (classValidatorsAcc st1))\<rparr>],
                         visited := visited st1 @ [rewriteType th field1]\<rparr>)))"

text \<open>
  The field object and the overrides with which the Create fold body leaves the relation
  block, given the relation input.
\<close>

definition createField1 :: "dmmf_field \<Rightarrow> relation_input \<Rightarrow> dmmf_field" where
  "createField1 field ri =
     (if isRelation field \<and> \<not> 1 < length (ri_imports ri) then
        (case coercionTarget ri of
           None \<Rightarrow> field
         | Some v \<Rightarrow> appendDocumentation field (coercionNote v))
      else field)"

definition createOverrides1 :: "dmmf_field \<Rightarrow> relation_input \<Rightarrow> overrides" where
  "createOverrides1 field ri =
     (if isRelation field then
        (if 1 < length (ri_imports ri)
         then compositeOverrides field ri (noOverrides\<lparr>o_createApiResp := Some False\<rparr>)
         else (case coercionTarget ri of
                 None \<Rightarrow> noOverrides\<lparr>o_createApiResp := Some False\<rparr>
               | Some v \<Rightarrow> noOverrides\<lparr>o_createApiResp := Some False, o_type := Some v\<rparr>))
      else noOverrides\<lparr>o_createApiResp := Some False\<rparr>)"

text \<open>
  The fields that no rule before the one on defaults (lines 149 to 158) drops.
\<close>

definition createReachesDefaults :: "string list \<Rightarrow> dmmf_field \<Rightarrow> bool" where
  "createReachesDefaults rsn field =
     (\<not> isAnnotatedWith field DTO_CREATE_HIDDEN
      \<and> \<not> isReadOnly_cls (reincludeIdentifier rsn field)
      \<and> (isRelation field \<longrightarrow> isAnnotatedWithOneOf field DTO_RELATION_MODIFIERS_ON_CREATE)
      \<and> \<not> (\<not> isAnnotatedWith field DTO_RELATION_INCLUDE_ID \<and> name field \<in> set rsn))"


definition updateTailKeeps :: "string list \<Rightarrow> dmmf_field \<Rightarrow> bool" where
  "updateTailKeeps rsn field =
     (\<not> (\<not> isAnnotatedWith field DTO_RELATION_INCLUDE_ID \<and> name field \<in> set rsn)
      \<and> (isAnnotatedWith field DTO_UPDATE_OPTIONAL
          \<or> \<not> (isId field \<or> isUpdatedAt field \<or> isRequiredWithDefaultValue field)))"











section \<open>Example schema\<close>

text \<open>
  Naming conventions, helper functions and two entities on which the statements below are
  evaluated. The example relation input has one import record per enabled mode, and names
  the coercion target in a validator spec called \<^verbatim>\<open>Type\<close>.
\<close>

definition exampleTemplateHelpers :: template_helpers where
  "exampleTemplateHelpers =
     \<lparr>noDependencies = False, classValidation = True,
      prismaClientImportPath = ''@prisma/client'',
      plainDtoName = (\<lambda>n. n @ ''Dto''), plainDtoFilename = (\<lambda>n. n @ ''.dto''),
      entityName = (\<lambda>n. n), entityFilename = (\<lambda>n. n @ ''.entity''),
      createDtoName = (\<lambda>n. ''Create'' @ n @ ''Dto''),
      createDtoFilename = (\<lambda>n. ''create-'' @ n @ ''.dto''),
      updateDtoName = (\<lambda>n. ''Update'' @ n @ ''Dto''),
      updateDtoFilename = (\<lambda>n. ''update-'' @ n @ ''.dto'')\<rparr>"

definition exampleShape ::
  "dmmf_field \<Rightarrow> model \<Rightarrow> model list \<Rightarrow> (string \<Rightarrow> string) \<Rightarrow>
   annotation \<Rightarrow> annotation \<Rightarrow> annotation \<Rightarrow> relation_input" where
  "exampleShape field m allModels preAndSuffixClassName canCreate canConnect canUpdate =
     (let creates = [\<lparr>from_path = ''./create-'' @ type field @ ''.dto'',
                      destruct = [''Create'' @ type field @ ''Dto'']\<rparr>];
          connects = [\<lparr>from_path = ''./connect-'' @ type field @ ''.dto'',
                       destruct = [''Connect'' @ type field @ ''Dto'']\<rparr>];
          composite = preAndSuffixClassName (modelName m @ name field @ ''RelationInput'')
      in if isAnnotatedWith field canCreate \<and> isAnnotatedWith field canConnect then
           \<lparr>ri_type = composite,
            ri_imports = creates @ connects,
            ri_generatedClasses = [composite],
            ri_apiExtraModels = [''Create'' @ type field @ ''Dto'', ''Connect'' @ type field @ ''Dto''],
            ri_classValidators =
              [\<lparr>cv_name = ''ValidateNested'', cv_value = None\<rparr>,
               \<lparr>cv_name = ''Type'', cv_value = Some (''() => '' @ composite)\<rparr>]\<rparr>
         else if isAnnotatedWith field canCreate then
           \<lparr>ri_type = ''Create'' @ type field @ ''Dto'',
            ri_imports = creates,
            ri_generatedClasses = [],
            ri_apiExtraModels = [],
            ri_classValidators =
              [\<lparr>cv_name = ''ValidateNested'', cv_value = None\<rparr>,
               \<lparr>cv_name = ''Type'', cv_value = Some (''() => Create'' @ type field @ ''Dto'')\<rparr>]\<rparr>
         else
           \<lparr>ri_type = ''Connect'' @ type field @ ''Dto'',
            ri_imports = connects,
            ri_generatedClasses = [],
            ri_apiExtraModels = [],
            ri_classValidators =
              [\<lparr>cv_name = ''ValidateNested'', cv_value = None\<rparr>,
               \<lparr>cv_name = ''Type'', cv_value = Some (''() => Connect'' @ type field @ ''Dto'')\<rparr>]\<rparr>)"

definition exampleHelpers :: helpers where
  "exampleHelpers =
     \<lparr>getRelativePath = (\<lambda>a b. ''.''), slash = (\<lambda>p. p),
      PrismaScalarToFormat = (\<lambda>t. if t = ''Int'' then Some ''int32'' else None),
      parseApiProperty = (\<lambda>f ov opts. []),
      parseClassValidators =
        (\<lambda>f ov n. if isRequired f then [\<lparr>cv_name = ''IsNotEmpty'', cv_value = None\<rparr>]
                   else [\<lparr>cv_name = ''IsOptional'', cv_value = None\<rparr>]),
      makeImportsFromPrismaClient = (\<lambda>fs p. []),
      relationInputShape = exampleShape\<rparr>"

definition scalarField :: "string \<Rightarrow> string \<Rightarrow> dmmf_field" where
  "scalarField n t =
     \<lparr>name = n, type = t, kind = KScalar, isList = False, isRequired = True,
      isReadOnly = False, hasDefaultValue = False, isId = False, isUpdatedAt = False,
      documentation = None, annotations = [], relationFromFields = []\<rparr>"

definition relationField :: "string \<Rightarrow> string \<Rightarrow> string list \<Rightarrow> dmmf_field" where
  "relationField n t fks = (scalarField n t)\<lparr>kind := KRelation, relationFromFields := fks\<rparr>"

definition bookId :: dmmf_field where
  "bookId = (scalarField ''id'' ''Int'')\<lparr>isId := True, hasDefaultValue := True\<rparr>"

definition bookTitle :: dmmf_field where
  "bookTitle = scalarField ''title'' ''String''"

definition bookAuthorId :: dmmf_field where
  "bookAuthorId = (scalarField ''authorId'' ''Int'')
     \<lparr>isReadOnly := True, annotations := [DTO_RELATION_INCLUDE_ID]\<rparr>"

definition bookAuthor :: dmmf_field where
  "bookAuthor = (relationField ''author'' ''Author'' [''authorId''])
     \<lparr>annotations := [DTO_RELATION_CAN_CONNECT_ON_CREATE, DTO_RELATION_CAN_CONNECT_ON_UPDATE]\<rparr>"

definition bookCreatedAt :: dmmf_field where
  "bookCreatedAt = (scalarField ''createdAt'' ''DateTime'')
     \<lparr>isReadOnly := True, hasDefaultValue := True\<rparr>"

definition bookModel :: model where
  "bookModel = \<lparr>modelName = ''Book'',
     modelFields = [bookId, bookTitle, bookAuthorId, bookAuthor, bookCreatedAt],
     outputEntity = ''src/book'', outputDto = ''src/book''\<rparr>"

definition authorBooks :: dmmf_field where
  "authorBooks = (relationField ''books'' ''Book'' [])
     \<lparr>isList := True,
      annotations := [DTO_RELATION_CAN_CREATE_ON_CREATE, DTO_RELATION_CAN_CONNECT_ON_CREATE,
                      DTO_RELATION_REQUIRED]\<rparr>"

definition authorModel :: model where
  "authorModel = \<lparr>modelName = ''Author'',
     modelFields = [(scalarField ''id'' ''Int'')\<lparr>isId := True, hasDefaultValue := True\<rparr>,
                    scalarField ''name'' ''String'', authorBooks],
     outputEntity = ''src/author'', outputDto = ''src/author''\<rparr>"

definition exampleModels :: "model list" where
  "exampleModels = [bookModel, authorModel]"






text \<open>
  An entity with a foreign key that has a default value and an automatic timestamp, both
  optional on creation.
\<close>

definition postAuthorId :: dmmf_field where
  "postAuthorId = (scalarField ''authorId'' ''Int'')
     \<lparr>hasDefaultValue := True, annotations := [DTO_CREATE_OPTIONAL]\<rparr>"

definition postAuthor :: dmmf_field where
  "postAuthor = (relationField ''author'' ''Author'' [''authorId''])
     \<lparr>annotations := [DTO_RELATION_CAN_CONNECT_ON_CREATE]\<rparr>"

definition postUpdatedAt :: dmmf_field where
  "postUpdatedAt = (scalarField ''updatedAt'' ''DateTime'')
     \<lparr>isUpdatedAt := True, annotations := [DTO_CREATE_OPTIONAL]\<rparr>"

definition postModel :: model where
  "postModel = \<lparr>modelName = ''Post'',
     modelFields = [postAuthorId, postAuthor, postUpdatedAt],
     outputEntity = ''src/post'', outputDto = ''src/post''\<rparr>"

definition postModels :: "model list" where
  "postModels = [postModel, authorModel]"



text \<open>What the three pipelines return for the example entities.\<close>

definition bookEntityParams :: params where
  "bookEntityParams =
     projr (computeEntityParams exampleTemplateHelpers exampleHelpers bookModel exampleModels)"

definition bookCreateParams :: params where
  "bookCreateParams =
     projr (computeCreateDtoParams exampleTemplateHelpers exampleHelpers bookModel exampleModels)"


definition authorCreateParams :: params where
  "authorCreateParams =
     projr (computeCreateDtoParams exampleTemplateHelpers exampleHelpers authorModel exampleModels)"


definition postCreateParams :: params where
  "postCreateParams =
     projr (computeCreateDtoParams exampleTemplateHelpers exampleHelpers postModel postModels)"



section \<open>Lemmas\<close>

lemma reduceFields_invariant_aux:
  assumes "reduceFields body s post = Inr s'"
    and "I pre s"
    and "\<And>p f q t t'. pre @ post = p @ f # q \<Longrightarrow> I p t \<Longrightarrow> body q f t = Inr t' \<Longrightarrow> I (p @ [f]) t'"
  shows "I (pre @ post) s'"
  using assms
proof (induction post arbitrary: pre s)
  case Nil
  then show ?case by simp
next
  case (Cons f post)
  from Cons.prems(1) obtain t where t: "body post f s = Inr t"
    and run: "reduceFields body t post = Inr s'"
    by (auto split: sum.splits)
  have step: "I (pre @ [f]) t"
    using Cons.prems(3)[of pre f post s t] Cons.prems(2) t by simp
  have "I ((pre @ [f]) @ post) s'"
  proof (rule Cons.IH[OF run step])
    fix p g q u u'
    assume "(pre @ [f]) @ post = p @ g # q" "I p u" "body q g u = Inr u'"
    then show "I (p @ [g]) u'" using Cons.prems(3)[of p g q u u'] by simp
  qed
  then show ?case by simp
qed

lemma reduceFields_invariant:
  assumes "reduceFields body s fs = Inr s'"
    and "I [] s"
    and "\<And>p f q t t'. fs = p @ f # q \<Longrightarrow> I p t \<Longrightarrow> body q f t = Inr t' \<Longrightarrow> I (p @ [f]) t'"
  shows "I fs s'"
  using reduceFields_invariant_aux[of body s fs s' I "[]"] assms by simp



lemma find_modelName_cases:
  obtains (absent) "find (\<lambda>m'. modelName m' = t) allModels = None" "t \<notin> modelName ` set allModels"
  | (present) x where "find (\<lambda>m'. modelName m' = t) allModels = Some x" "t \<in> modelName ` set allModels"
proof (cases "find (\<lambda>m'. modelName m' = t) allModels")
  case None
  then have "t \<notin> modelName ` set allModels" by (auto simp: find_None_iff)
  with None show ?thesis by (rule absent)
next
  case (Some x)
  then have "x \<in> set allModels \<and> modelName x = t" by (auto simp: find_Some_iff)
  then have "t \<in> modelName ` set allModels" by auto
  with Some show ?thesis by (rule present)
qed




lemma entityRelation_Inr:
  "entityRelation th h m allModels field ov imps = Inr (ov1, imps2) \<Longrightarrow> ov1 = relationOverrides field ov"
  by (cases rule: find_modelName_cases[of "type field" allModels])
     (auto simp: entityRelation_def relationOverrides_def Let_def split: if_splits)

lemma entityApiProperties_fst:
  "fst (entityApiProperties th h field imps hasApi) = entityDecorators th h field"
  by (simp add: entityApiProperties_def entityDecorators_def Let_def)

lemma entityField_Inr:
  assumes "entityField th h m allModels rsf rest field st = Inr st'"
  shows "visited st' = visited st @ [entityVisited th field]"
    and "result st' = result st @
           (if isAnnotatedWith field DTO_ENTITY_HIDDEN then []
            else [mapDMMFToParsedField (rewriteType th field)
                    (entityOverrides rsf (visited st @ field # rest) field)
                    (entityDecorators th h field)])"
proof -
  show "visited st' = visited st @ [entityVisited th field]"
    using assms
    by (auto simp: entityField_def entityVisited_def skip_def Let_def
             split: if_splits sum.splits prod.splits)
  show "result st' = result st @
           (if isAnnotatedWith field DTO_ENTITY_HIDDEN then []
            else [mapDMMFToParsedField (rewriteType th field)
                    (entityOverrides rsf (visited st @ field # rest) field)
                    (entityDecorators th h field)])"
  proof (cases "isAnnotatedWith field DTO_ENTITY_HIDDEN")
    case True
    with assms show ?thesis by (auto simp: entityField_def skip_def)
  next
    case False
    from assms False obtain imps1 ov1 imps2 where
      r: "entityRelation th h m allModels field
            (noOverrides\<lparr>o_isRequired := Some True, o_isNullable := Some (\<not> isRequired field)\<rparr>)
            imps1 = Inr (ov1, imps2)"
      and st': "result st' = result st @
             [mapDMMFToParsedField (rewriteType th field)
                (entityRelationScalar rsf (visited st @ field # rest) field ov1)
                (fst (entityApiProperties th h field imps2 (hasApiProperty st)))]"
      by (auto simp: entityField_def Let_def split: sum.splits prod.splits)
    from entityRelation_Inr[OF r] st' False show ?thesis
      by (simp add: entityOverrides_def entityApiProperties_fst)
  qed
qed

lemma sameButType_refl: "sameButType f f"
  by (simp add: sameButType_def)

lemma sameButType_rewriteType: "sameButType f (rewriteType th f)"
  by (simp add: sameButType_def rewriteType_def)

lemma sameButType_entityVisited: "sameButType f (entityVisited th f)"
  by (simp add: entityVisited_def sameButType_refl sameButType_rewriteType)

lemma sameButType_fields:
  assumes "sameButType f f'"
  shows "name f' = name f" "isRequired f' = isRequired f" "annotations f' = annotations f"
    "kind f' = kind f" "isList f' = isList f" "relationFromFields f' = relationFromFields f"
  using assms unfolding sameButType_def
  by (metis dmmf_field.select_convs dmmf_field.surjective dmmf_field.update_convs(2))+

lemma find_name_sameButType:
  assumes "list_all2 sameButType fs fs'"
  shows "rel_option sameButType (find (\<lambda>a. name a = n) fs) (find (\<lambda>a. name a = n) fs')"
  using assms
  by (induction rule: list_all2_induct) (auto simp: sameButType_fields)

lemma isAnyRelationRequired_sameButType:
  assumes "list_all2 sameButType fs fs'"
  shows "isAnyRelationRequired fs' ns = isAnyRelationRequired fs ns"
proof -
  have "\<And>n. (case find (\<lambda>a. name a = n) fs' of None \<Rightarrow> False
               | Some r \<Rightarrow> isRequired_cls r \<or> isAnnotatedWith r DTO_RELATION_REQUIRED)
           = (case find (\<lambda>a. name a = n) fs of None \<Rightarrow> False
               | Some r \<Rightarrow> isRequired_cls r \<or> isAnnotatedWith r DTO_RELATION_REQUIRED)"
  proof -
    fix n
    from find_name_sameButType[OF assms, of n]
    show "(case find (\<lambda>a. name a = n) fs' of None \<Rightarrow> False
               | Some r \<Rightarrow> isRequired_cls r \<or> isAnnotatedWith r DTO_RELATION_REQUIRED)
           = (case find (\<lambda>a. name a = n) fs of None \<Rightarrow> False
               | Some r \<Rightarrow> isRequired_cls r \<or> isAnnotatedWith r DTO_RELATION_REQUIRED)"
      by (cases "find (\<lambda>a. name a = n) fs"; cases "find (\<lambda>a. name a = n) fs'")
         (auto simp: isRequired_cls_def isAnnotatedWith_def sameButType_fields)
  qed
  then show ?thesis by (simp add: isAnyRelationRequired_def)
qed

lemma entityOverrides_sameButType:
  assumes "list_all2 sameButType fs fs'"
  shows "entityOverrides rsf fs' field = entityOverrides rsf fs field"
  by (simp add: entityOverrides_def entityRelationScalar_def
        isAnyRelationRequired_sameButType[OF assms] split: option.splits)

lemma entityFields_run:
  assumes "reduceFields (entityField th h m allModels (getRelationScalars (modelFields m)))
             emptyAcc (modelFields m) = Inr st"
  shows "visited st = map (entityVisited th) (modelFields m)"
    and "result st = map (entityParsed th h m)
                       (filter (\<lambda>f. \<not> isAnnotatedWith f DTO_ENTITY_HIDDEN) (modelFields m))"
proof -
  let ?I = "\<lambda>pre s. visited s = map (entityVisited th) pre
                \<and> result s = map (entityParsed th h m)
                               (filter (\<lambda>f. \<not> isAnnotatedWith f DTO_ENTITY_HIDDEN) pre)"
  have "?I (modelFields m) st"
  proof (rule reduceFields_invariant[OF assms, of ?I])
    show "?I [] emptyAcc" by (simp add: emptyAcc_def)
  next
    fix p f q t t'
    assume fs: "modelFields m = p @ f # q" and I: "?I p t"
      and step: "entityField th h m allModels (getRelationScalars (modelFields m)) q f t = Inr t'"
    have "list_all2 sameButType (p @ f # q) (map (entityVisited th) p @ f # q)"
      by (simp add: list_all2_appendI list_all2_map2 list.rel_refl sameButType_refl
            sameButType_entityVisited)
    then have ov: "entityOverrides (getRelationScalars (modelFields m)) (visited t @ f # q) f
             = entityOverrides (getRelationScalars (modelFields m)) (modelFields m) f"
      using entityOverrides_sameButType[of "p @ f # q" "map (entityVisited th) p @ f # q"] I fs
      by simp
    from entityField_Inr[OF step] I ov
    show "?I (p @ [f]) t'" by (simp add: entityParsed_def)
  qed
  then show "visited st = map (entityVisited th) (modelFields m)"
    and "result st = map (entityParsed th h m)
                       (filter (\<lambda>f. \<not> isAnnotatedWith f DTO_ENTITY_HIDDEN) (modelFields m))"
    by simp_all
qed

lemma computeEntityParams_Inr:
  assumes "computeEntityParams th h m allModels = Inr out"
  shows "p_fields out = map (entityParsed th h m)
                       (filter (\<lambda>f. \<not> isAnnotatedWith f DTO_ENTITY_HIDDEN) (modelFields m))"
    and "modelFields (p_model out) = map (entityVisited th) (modelFields m)"
proof -
  from assms obtain st where
    run: "reduceFields (entityField th h m allModels (getRelationScalars (modelFields m)))
             emptyAcc (modelFields m) = Inr st"
    and out: "p_fields out = result st" "modelFields (p_model out) = visited st"
    by (auto simp: computeEntityParams_def Let_def split: sum.splits)
  from entityFields_run[OF run] out
  show "p_fields out = map (entityParsed th h m)
                       (filter (\<lambda>f. \<not> isAnnotatedWith f DTO_ENTITY_HIDDEN) (modelFields m))"
    and "modelFields (p_model out) = map (entityVisited th) (modelFields m)"
    by simp_all
qed

lemma set_uniq: "set (uniq xs) = set xs"
  by (simp add: uniq_def)

lemma distinct_uniq: "distinct (uniq xs)"
  by (simp add: uniq_def)

lemma relationScalarKeys_iff:
  "n \<in> set (relationScalarKeys fs) = (\<exists>r\<in>set fs. isRelation r \<and> n \<in> set (relationFromFields r))"
  by (auto simp: relationScalarKeys_def getRelationScalars_def set_uniq comp_def)

lemma fst_getRelationScalars:
  "n \<in> fst ` set (getRelationScalars fs) = (\<exists>r\<in>set fs. isRelation r \<and> n \<in> set (relationFromFields r))"
  using relationScalarKeys_iff[of n fs] by (simp add: relationScalarKeys_def)

lemma map_of_getRelationScalars:
  assumes "\<exists>r\<in>set fs. isRelation r \<and> n \<in> set (relationFromFields r)"
  shows "map_of (getRelationScalars fs) n
           = Some (map name (filter (\<lambda>f. isRelation f \<and> n \<in> set (relationFromFields f)) fs))"
proof -
  have "n \<in> set (uniq (concat (map relationFromFields (filter isRelation fs))))"
    using assms by (auto simp: set_uniq)
  then show ?thesis
    unfolding getRelationScalars_def by (simp add: map_of_map_restrict)
qed

lemma find_distinct_name:
  assumes "distinct (map name fs)" "r \<in> set fs"
  shows "find (\<lambda>a. name a = name r) fs = Some r"
  using assms
  by (induction fs) auto

lemma isAnyRelationRequired_owning:
  assumes "distinct (map name fs)"
  shows "isAnyRelationRequired fs (map name (filter P fs))
           = (\<exists>r\<in>set fs. P r \<and> (isRequired r \<or> isAnnotatedWith r DTO_RELATION_REQUIRED))"
proof -
  have "\<And>r. r \<in> set fs \<Longrightarrow>
          (case find (\<lambda>a. name a = name r) fs of None \<Rightarrow> False
           | Some rf \<Rightarrow> isRequired_cls rf \<or> isAnnotatedWith rf DTO_RELATION_REQUIRED)
          = (isRequired r \<or> isAnnotatedWith r DTO_RELATION_REQUIRED)"
    using find_distinct_name[OF assms] by (simp add: isRequired_cls_def)
  then show ?thesis
    by (auto simp: isAnyRelationRequired_def)
qed

lemma entityOverrides_tracked:
  assumes "distinct (map name (modelFields m))" "isTrackedForeignKey m field"
  shows "o_isRequired (entityOverrides (getRelationScalars (modelFields m)) (modelFields m) field) = Some True"
    and "o_isNullable (entityOverrides (getRelationScalars (modelFields m)) (modelFields m) field)
           = Some (\<not> anyOwningRelationRequired m field)"
proof -
  from assms(2) have ex: "\<exists>r\<in>set (modelFields m). isRelation r \<and> name field \<in> set (relationFromFields r)"
    by (simp add: isTrackedForeignKey_def)
  then have key: "name field \<in> fst ` set (getRelationScalars (modelFields m))"
    by (simp add: fst_getRelationScalars)
  have any: "isAnyRelationRequired (modelFields m)
           (map name (filter (\<lambda>f. isRelation f \<and> name field \<in> set (relationFromFields f)) (modelFields m)))
         = anyOwningRelationRequired m field"
    using isAnyRelationRequired_owning[OF assms(1),
            of "\<lambda>f. isRelation f \<and> name field \<in> set (relationFromFields f)"]
    by (auto simp: anyOwningRelationRequired_def)
  show "o_isRequired (entityOverrides (getRelationScalars (modelFields m)) (modelFields m) field) = Some True"
    using key by (simp add: entityOverrides_def entityRelationScalar_def map_of_getRelationScalars[OF ex])
  show "o_isNullable (entityOverrides (getRelationScalars (modelFields m)) (modelFields m) field)
           = Some (\<not> anyOwningRelationRequired m field)"
    using key any
    by (simp add: entityOverrides_def entityRelationScalar_def map_of_getRelationScalars[OF ex])
qed

lemma rewriteType_fields [simp]:
  "name (rewriteType th f) = name f" "kind (rewriteType th f) = kind f"
  "isList (rewriteType th f) = isList f" "isRequired (rewriteType th f) = isRequired f"
  "annotations (rewriteType th f) = annotations f" "isReadOnly (rewriteType th f) = isReadOnly f"
  "documentation (rewriteType th f) = documentation f"
  "relationFromFields (rewriteType th f) = relationFromFields f"
  "hasDefaultValue (rewriteType th f) = hasDefaultValue f"
  "isId (rewriteType th f) = isId f" "isUpdatedAt (rewriteType th f) = isUpdatedAt f"
  by (simp_all add: rewriteType_def)

lemma entityParsed_field [simp]:
  "pf_field (entityParsed th h m f) = rewriteType th f"
  "pf_overrides (entityParsed th h m f)
     = entityOverrides (getRelationScalars (modelFields m)) (modelFields m) f"
  by (simp_all add: entityParsed_def mapDMMFToParsedField_def)

lemma entityOverrides_relation:
  assumes "isRelation f" "name f \<notin> set (relationScalarKeys (modelFields m))"
  shows "entityOverrides (getRelationScalars (modelFields m)) (modelFields m) f
     = noOverrides\<lparr>o_isRequired := Some (isAnnotatedWith f DTO_RELATION_REQUIRED),
           o_isNullable := Some (if isList f then False
                                 else if isRequired f then False
                                 else \<not> isAnnotatedWith f DTO_RELATION_REQUIRED)\<rparr>"
  using assms
  by (simp add: entityOverrides_def entityRelationScalar_def relationOverrides_def
        relationScalarKeys_def)

lemma reincludeIdentifier_fields [simp]:
  "name (reincludeIdentifier rsn f) = name f" "kind (reincludeIdentifier rsn f) = kind f"
  "type (reincludeIdentifier rsn f) = type f"
  "isList (reincludeIdentifier rsn f) = isList f" "isRequired (reincludeIdentifier rsn f) = isRequired f"
  "annotations (reincludeIdentifier rsn f) = annotations f"
  "documentation (reincludeIdentifier rsn f) = documentation f"
  "relationFromFields (reincludeIdentifier rsn f) = relationFromFields f"
  "hasDefaultValue (reincludeIdentifier rsn f) = hasDefaultValue f"
  "isId (reincludeIdentifier rsn f) = isId f" "isUpdatedAt (reincludeIdentifier rsn f) = isUpdatedAt f"
  by (simp_all add: reincludeIdentifier_def)

lemma appendDocumentation_fields [simp]:
  "name (appendDocumentation f x) = name f" "kind (appendDocumentation f x) = kind f"
  "type (appendDocumentation f x) = type f"
  "isList (appendDocumentation f x) = isList f" "isRequired (appendDocumentation f x) = isRequired f"
  "annotations (appendDocumentation f x) = annotations f"
  "isReadOnly (appendDocumentation f x) = isReadOnly f"
  "relationFromFields (appendDocumentation f x) = relationFromFields f"
  "hasDefaultValue (appendDocumentation f x) = hasDefaultValue f"
  "isId (appendDocumentation f x) = isId f" "isUpdatedAt (appendDocumentation f x) = isUpdatedAt f"
  by (simp_all add: appendDocumentation_def)

lemma classifier_reinclude [simp]:
  "isAnnotatedWith (reincludeIdentifier rsn f) a = isAnnotatedWith f a"
  "isAnnotatedWithOneOf (reincludeIdentifier rsn f) as = isAnnotatedWithOneOf f as"
  "isRelation (reincludeIdentifier rsn f) = isRelation f"
  "isType (reincludeIdentifier rsn f) = isType f"
  "isIdWithDefaultValue (reincludeIdentifier rsn f) = isIdWithDefaultValue f"
  "isRequiredWithDefaultValue (reincludeIdentifier rsn f) = isRequiredWithDefaultValue f"
  "isUpdatedAt_cls (reincludeIdentifier rsn f) = isUpdatedAt f"
  "isId_cls (reincludeIdentifier rsn f) = isId f"
  by (simp_all add: isAnnotatedWith_def isAnnotatedWithOneOf_def isRelation_def isType_def
        isIdWithDefaultValue_def isRequiredWithDefaultValue_def isUpdatedAt_cls_def isId_cls_def)

lemma classifier_appendDocumentation [simp]:
  "isAnnotatedWith (appendDocumentation f x) a = isAnnotatedWith f a"
  "isRelation (appendDocumentation f x) = isRelation f"
  "isType (appendDocumentation f x) = isType f"
  "isIdWithDefaultValue (appendDocumentation f x) = isIdWithDefaultValue f"
  "isRequiredWithDefaultValue (appendDocumentation f x) = isRequiredWithDefaultValue f"
  "isUpdatedAt_cls (appendDocumentation f x) = isUpdatedAt f"
  by (simp_all add: isAnnotatedWith_def isRelation_def isType_def
        isIdWithDefaultValue_def isRequiredWithDefaultValue_def isUpdatedAt_cls_def)

lemma generateRelationInput_cases:
  obtains (absent) "type field \<notin> modelName ` set allModels"
      "generateRelationInput h field m' allModels pre a b c
         = Inl (Error (notFoundMessage ''model'' (type field) (modelName m') (name field)))"
  | (present) "type field \<in> modelName ` set allModels"
      "generateRelationInput h field m' allModels pre a b c
         = Inr (relationInputShape h field m' allModels pre a b c)"
  by (cases rule: find_modelName_cases[of "type field" allModels])
     (simp_all add: generateRelationInput_def)

text \<open>What the relation block of the Create body leaves behind.\<close>

lemma createRelation_cases:
  fixes th h m allModels fs field ov st
  defines "ri \<equiv> createInput th h m allModels fs field"
  obtains (plain) "\<not> isRelation field"
      "createRelation th h m allModels fs field ov st = Inr (Some (field, ov, st))"
  | (unmodified) "isRelation field"
      "\<not> isAnnotatedWithOneOf field DTO_RELATION_MODIFIERS_ON_CREATE"
      "createRelation th h m allModels fs field ov st = Inr None"
  | (absent) "isRelation field" "isAnnotatedWithOneOf field DTO_RELATION_MODIFIERS_ON_CREATE"
      "type field \<notin> modelName ` set allModels"
      "createRelation th h m allModels fs field ov st
         = Inl (Error (notFoundMessage ''model'' (type field) (modelName m) (name field)))"
  | (composite) "isRelation field" "isAnnotatedWithOneOf field DTO_RELATION_MODIFIERS_ON_CREATE"
      "type field \<in> modelName ` set allModels" "1 < length (ri_imports ri)"
      "createRelation th h m allModels fs field ov st
         = Inr (Some (field, compositeOverrides field ri ov, absorbRelationInput th ri st))"
  | (direct) "isRelation field" "isAnnotatedWithOneOf field DTO_RELATION_MODIFIERS_ON_CREATE"
      "type field \<in> modelName ` set allModels" "\<not> 1 < length (ri_imports ri)"
      "coercionTarget ri = None"
      "createRelation th h m allModels fs field ov st
         = Inr (Some (field, ov, st\<lparr>importList := importList st @ ri_imports ri\<rparr>))"
  | (coerced) v where "isRelation field"
      "isAnnotatedWithOneOf field DTO_RELATION_MODIFIERS_ON_CREATE"
      "type field \<in> modelName ` set allModels" "\<not> 1 < length (ri_imports ri)"
      "coercionTarget ri = Some v"
      "createRelation th h m allModels fs field ov st
         = Inr (Some (appendDocumentation field (coercionNote v), ov\<lparr>o_type := Some v\<rparr>,
                      st\<lparr>importList := importList st @ ri_imports ri\<rparr>))"
proof (cases "isRelation field")
  case False
  then show ?thesis by (intro plain) (simp_all add: createRelation_def)
next
  case rel: True
  show ?thesis
  proof (cases "isAnnotatedWithOneOf field DTO_RELATION_MODIFIERS_ON_CREATE")
    case False
    with rel show ?thesis by (intro unmodified) (simp_all add: createRelation_def)
  next
    case mods: True
    show ?thesis
    proof (cases rule: generateRelationInput_cases[of field allModels h "m\<lparr>modelFields := fs\<rparr>"
          "createDtoName th" DTO_RELATION_CAN_CREATE_ON_CREATE DTO_RELATION_CAN_CONNECT_ON_CREATE
          DTO_RELATION_CAN_UPDATE_ON_UPDATE])
      case absent
      with rel mods show ?thesis
        by (intro that(3)) (simp_all add: createRelation_def)
    next
      case present
      show ?thesis
      proof (cases "1 < length (ri_imports ri)")
        case True
        with rel mods present show ?thesis
          by (intro composite) (simp_all add: createRelation_def ri_def createInput_def)
      next
        case False
        show ?thesis
        proof (cases "coercionTarget ri")
          case None
          with rel mods present False show ?thesis
            by (intro direct)
               (simp_all add: createRelation_def ri_def createInput_def concatIntoArray_def Let_def)
        next
          case (Some v)
          with rel mods present False show ?thesis
            by (intro coerced[of v])
               (simp_all add: createRelation_def ri_def createInput_def concatIntoArray_def Let_def)
        qed
      qed
    qed
  qed
qed

lemma createField_unfold:
  "createField th h m allModels rsn rest field0 st =
     (let field = reincludeIdentifier rsn field0
      in if isAnnotatedWith field0 DTO_CREATE_HIDDEN \<or> isReadOnly_cls field then Inr (skip st field)
         else
           (case createRelation th h m allModels (visited st @ field # rest) field
                   (noOverrides\<lparr>o_createApiResp := Some False\<rparr>) st of
              Inl e \<Rightarrow> Inl e
            | Inr None \<Rightarrow> Inr (skip st field)
            | Inr (Some (field1, ov1, st1)) \<Rightarrow> createTail th h m allModels rsn field1 ov1 st1))"
  by (simp add: createField_def createTail_def tailKeeps_def Let_def
        isUpdatedAt_cls_def split_beta
      split: sum.splits option.splits)

lemma createApiProperties_overrides [simp]:
  "o_isRequired (fst (createApiProperties th h f ov a b)) = o_isRequired ov"
  "o_type (fst (createApiProperties th h f ov a b)) = o_type ov"
  "o_isNullable (fst (createApiProperties th h f ov a b)) = o_isNullable ov"
  by (simp_all add: createApiProperties_def Let_def)

lemma isl_createTypeImport:
  "isl (createTypeImport th h m allModels field imps) = (isType field \<and> unresolved m allModels field)"
  by (cases rule: find_modelName_cases[of "type field" allModels])
     (simp_all add: createTypeImport_def unresolved_def)

lemma createTypeImport_Inl:
  "createTypeImport th h m allModels field imps = Inl e \<Longrightarrow>
     e = Error (notFoundMessage ''type'' (type field) (modelName m) (name field))"
  by (cases rule: find_modelName_cases[of "type field" allModels])
     (auto simp: createTypeImport_def split: if_splits)

lemma createTail_cases:
  obtains (drop) "\<not> tailKeeps rsn field1"
      "createTail th h m allModels rsn field1 ov1 st1 = Inr (skip st1 field1)"
  | (error) "tailKeeps rsn field1" "isType field1" "unresolved m allModels field1"
      "createTail th h m allModels rsn field1 ov1 st1
         = Inl (Error (notFoundMessage ''type'' (type field1) (modelName m) (name field1)))"
  | (keep) st' pf imps where "tailKeeps rsn field1" "\<not> (isType field1 \<and> unresolved m allModels field1)"
      "createTail th h m allModels rsn field1 ov1 st1 = Inr st'"
      "result st' = result st1 @ [pf]"
      "visited st' = visited st1 @ [rewriteType th field1]"
      "pf_field pf = rewriteType th field1"
      "o_isRequired (pf_overrides pf)
         = (if isAnnotatedWith field1 DTO_CREATE_OPTIONAL then Some False else o_isRequired ov1)"
      "o_type (pf_overrides pf) = o_type ov1"
      "createTypeImport th h m allModels field1 (importList st1) = Inr imps"
      "importList st' = imps"
      "classValidatorsAcc st' =
         snd (createValidators th h field1
                (if isAnnotatedWith field1 DTO_CREATE_OPTIONAL
                 then ov1\<lparr>o_isRequired := Some False\<rparr> else ov1) (classValidatorsAcc st1))"
      "apiExtraModels st' = apiExtraModels st1" "extraClasses st' = extraClasses st1"
proof (cases "tailKeeps rsn field1")
  case False
  then show ?thesis by (intro drop) (simp_all add: createTail_def)
next
  case True
  show ?thesis
  proof (cases "createTypeImport th h m allModels field1 (importList st1)")
    case (Inl e)
    then have "isType field1 \<and> unresolved m allModels field1"
      using isl_createTypeImport[of th h m allModels field1 "importList st1"] by simp
    with True Inl createTypeImport_Inl[OF Inl] show ?thesis
      by (intro error) (simp_all add: createTail_def Let_def)
  next
    case (Inr imps)
    then have nt: "\<not> (isType field1 \<and> unresolved m allModels field1)"
      using isl_createTypeImport[of th h m allModels field1 "importList st1"] by simp
    define ov2 where "ov2 = (if isAnnotatedWith field1 DTO_CREATE_OPTIONAL
                    then ov1\<lparr>o_isRequired := Some False\<rparr> else ov1)"
    define api where "api = createApiProperties th h field1 ov2
                                  (hasApiProperty st1) (hasApiRespProperty st1)"
    define pf where "pf = mapDMMFToParsedField (rewriteType th field1) (fst api)
                              \<lparr>apiProperties = fst (snd api),
                               classValidators =
                                 fst (createValidators th h field1 ov2 (classValidatorsAcc st1))\<rparr>"
    define st' where "st' = st1\<lparr>importList := imps,
                         classValidatorsAcc :=
                           snd (createValidators th h field1 ov2 (classValidatorsAcc st1)),
                         hasApiProperty := fst (snd (snd api)),
                         hasApiRespProperty := snd (snd (snd api)),
                         result := result st1 @ [pf],
                         visited := visited st1 @ [rewriteType th field1]\<rparr>"
    have eq: "createTail th h m allModels rsn field1 ov1 st1 = Inr st'"
      using True Inr by (simp add: createTail_def Let_def st'_def pf_def api_def ov2_def)
    show ?thesis
    proof (rule keep[OF True nt eq, of pf imps])
      show "result st' = result st1 @ [pf]" by (simp add: st'_def)
      show "visited st' = visited st1 @ [rewriteType th field1]" by (simp add: st'_def)
      show "pf_field pf = rewriteType th field1" by (simp add: pf_def mapDMMFToParsedField_def)
      show "o_isRequired (pf_overrides pf)
         = (if isAnnotatedWith field1 DTO_CREATE_OPTIONAL then Some False else o_isRequired ov1)"
        by (simp add: pf_def mapDMMFToParsedField_def api_def ov2_def)
      show "o_type (pf_overrides pf) = o_type ov1"
        by (simp add: pf_def mapDMMFToParsedField_def api_def ov2_def)
      show "createTypeImport th h m allModels field1 (importList st1) = Inr imps" by (rule Inr)
      show "importList st' = imps" by (simp add: st'_def)
      show "classValidatorsAcc st' =
         snd (createValidators th h field1
                (if isAnnotatedWith field1 DTO_CREATE_OPTIONAL
                 then ov1\<lparr>o_isRequired := Some False\<rparr> else ov1) (classValidatorsAcc st1))"
        by (simp add: st'_def ov2_def)
      show "apiExtraModels st' = apiExtraModels st1" by (simp add: st'_def)
      show "extraClasses st' = extraClasses st1" by (simp add: st'_def)
    qed
  qed
qed

lemma absorbRelationInput_fields [simp]:
  "result (absorbRelationInput th ri st) = result st"
  "visited (absorbRelationInput th ri st) = visited st"
  "importList (absorbRelationInput th ri st) = importList st @ ri_imports ri"
  "classValidatorsAcc (absorbRelationInput th ri st)
     = concatUniqueIntoArray (ri_classValidators ri) (classValidatorsAcc st)"
  "apiExtraModels (absorbRelationInput th ri st)
     = (if \<not> noDependencies th then apiExtraModels st @ ri_apiExtraModels ri
        else apiExtraModels st)"
  by (simp_all add: absorbRelationInput_def concatIntoArray_def)

lemma skip_fields [simp]:
  "result (skip st f) = result st" "visited (skip st f) = visited st @ [f]"
  "importList (skip st f) = importList st"
  "classValidatorsAcc (skip st f) = classValidatorsAcc st"
  "apiExtraModels (skip st f) = apiExtraModels st"
  by (simp_all add: skip_def)

lemma tailKeeps_cong [simp]:
  "tailKeeps rsn (reincludeIdentifier rsn' f) = tailKeeps rsn f"
  "tailKeeps rsn (appendDocumentation f x) = tailKeeps rsn f"
  by (simp_all add: tailKeeps_def)

lemma tailKeeps_createField1 [simp]:
  "tailKeeps rsn (createField1 f ri) = tailKeeps rsn f"
  by (simp add: createField1_def split: option.splits)

lemma createKeeps_alt:
  "createKeeps rsn field0 =
     (\<not> isAnnotatedWith field0 DTO_CREATE_HIDDEN
      \<and> \<not> isReadOnly_cls (reincludeIdentifier rsn field0)
      \<and> (isRelation field0 \<longrightarrow> isAnnotatedWithOneOf field0 DTO_RELATION_MODIFIERS_ON_CREATE)
      \<and> tailKeeps rsn field0)"
  by (simp add: createKeeps_def tailKeeps_def)

text \<open>
  The relation block either returns early, throws, or goes on with the field object
  \<open>createField1\<close> and the overrides \<open>createOverrides1\<close>, and leaves the output list and
  the visited fields alone.
\<close>

lemma createRelation_outcome:
  fixes th h m allModels fs field st
  defines "ri \<equiv> createInput th h m allModels fs field"
  defines "r \<equiv> createRelation th h m allModels fs field (noOverrides\<lparr>o_createApiResp := Some False\<rparr>) st"
  obtains (early) "isRelation field" "\<not> isAnnotatedWithOneOf field DTO_RELATION_MODIFIERS_ON_CREATE"
      "r = Inr None"
  | (throw) "isRelation field" "isAnnotatedWithOneOf field DTO_RELATION_MODIFIERS_ON_CREATE"
      "type field \<notin> modelName ` set allModels"
      "r = Inl (Error (notFoundMessage ''model'' (type field) (modelName m) (name field)))"
  | (continue) st1 where "isRelation field \<longrightarrow> isAnnotatedWithOneOf field DTO_RELATION_MODIFIERS_ON_CREATE
                        \<and> type field \<in> modelName ` set allModels"
      "r = Inr (Some (createField1 field ri, createOverrides1 field ri, st1))"
      "result st1 = result st" "visited st1 = visited st"
      "importList st1 = importList st @ (if isRelation field then ri_imports ri else [])"
      "\<exists>xs. classValidatorsAcc st1 = concatUniqueIntoArray xs (classValidatorsAcc st)"
      "apiExtraModels st1 = apiExtraModels st \<or> \<not> noDependencies th"
proof (cases rule: createRelation_cases[of field th h m allModels fs "noOverrides\<lparr>o_createApiResp := Some False\<rparr>" st])
  case plain
  have "classValidatorsAcc st = concatUniqueIntoArray [] (classValidatorsAcc st)" by simp
  then have "\<exists>xs. classValidatorsAcc st = concatUniqueIntoArray xs (classValidatorsAcc st)" ..
  with plain show ?thesis
    by (intro continue[of st]) (simp_all add: r_def createField1_def createOverrides1_def)
next
  case unmodified
  then show ?thesis by (intro early) (simp_all add: r_def)
next
  case absent
  then show ?thesis by (intro throw) (simp_all add: r_def)
next
  case composite
  have "\<exists>xs. classValidatorsAcc (absorbRelationInput th ri st)
          = concatUniqueIntoArray xs (classValidatorsAcc st)"
    by (rule exI[of _ "ri_classValidators ri"]) simp
  with composite show ?thesis
    by (intro continue[of "absorbRelationInput th ri st"])
       (simp_all add: r_def ri_def createField1_def createOverrides1_def)
next
  case direct
  have "classValidatorsAcc st = concatUniqueIntoArray [] (classValidatorsAcc st)" by simp
  then have "\<exists>xs. classValidatorsAcc st = concatUniqueIntoArray xs (classValidatorsAcc st)" ..
  with direct show ?thesis
    by (intro continue[of "st\<lparr>importList := importList st @ ri_imports ri\<rparr>"])
       (simp_all add: r_def ri_def createField1_def createOverrides1_def)
next
  case (coerced v)
  have "classValidatorsAcc st = concatUniqueIntoArray [] (classValidatorsAcc st)" by simp
  then have "\<exists>xs. classValidatorsAcc st = concatUniqueIntoArray xs (classValidatorsAcc st)" ..
  with coerced show ?thesis
    by (intro continue[of "st\<lparr>importList := importList st @ ri_imports ri\<rparr>"])
       (simp_all add: r_def ri_def createField1_def createOverrides1_def)
qed

lemma createField_Inr:
  fixes th h m allModels rsn rest field0 st
  defines "field \<equiv> reincludeIdentifier rsn field0"
  defines "ri \<equiv> createInput th h m allModels (visited st @ field # rest) field"
  defines "f1 \<equiv> createField1 field ri"
  assumes step: "createField th h m allModels rsn rest field0 st = Inr st'"
  shows "\<exists>g. visited st' = visited st @ [g] \<and> (g = field \<or> g = f1 \<or> g = rewriteType th f1)"
    and "\<not> createKeeps rsn field0 \<Longrightarrow> result st' = result st"
    and "createKeeps rsn field0 \<Longrightarrow>
           \<exists>pf. result st' = result st @ [pf] \<and> pf_field pf = rewriteType th f1
              \<and> o_isRequired (pf_overrides pf)
                  = (if isAnnotatedWith field0 DTO_CREATE_OPTIONAL then Some False
                     else o_isRequired (createOverrides1 field ri))
              \<and> o_type (pf_overrides pf) = o_type (createOverrides1 field ri)"
proof -
  have all: "(\<exists>g. visited st' = visited st @ [g] \<and> (g = field \<or> g = f1 \<or> g = rewriteType th f1))
     \<and> (\<not> createKeeps rsn field0 \<longrightarrow> result st' = result st)
     \<and> (createKeeps rsn field0 \<longrightarrow>
           (\<exists>pf. result st' = result st @ [pf] \<and> pf_field pf = rewriteType th f1
              \<and> o_isRequired (pf_overrides pf)
                  = (if isAnnotatedWith field0 DTO_CREATE_OPTIONAL then Some False
                     else o_isRequired (createOverrides1 field ri))
              \<and> o_type (pf_overrides pf) = o_type (createOverrides1 field ri)))"
  proof (cases "isAnnotatedWith field0 DTO_CREATE_HIDDEN \<or> isReadOnly_cls field")
    case True
    with step have "st' = skip st field"
      by (auto simp: createField_unfold field_def Let_def)
    with True show ?thesis by (auto simp: createKeeps_alt field_def)
  next
    case False
    show ?thesis
    proof (cases rule: createRelation_outcome[where th=th and h=h and m=m and allModels=allModels
          and fs="visited st @ field # rest" and field=field and st=st])
      case early
      with step False have "st' = skip st field"
        by (auto simp: createField_unfold field_def Let_def)
      with early show ?thesis by (auto simp: createKeeps_alt field_def)
    next
      case throw
      with step False show ?thesis
        by (simp add: createField_unfold field_def Let_def)
    next
      case (continue st1)
      with step False have tail: "createTail th h m allModels rsn f1 (createOverrides1 field ri) st1 = Inr st'"
        by (simp add: createField_unfold field_def Let_def f1_def ri_def)
      have keeps: "createKeeps rsn field0 = tailKeeps rsn field0"
        using False continue(1) by (auto simp: createKeeps_alt field_def)
      show ?thesis
      proof (cases rule: createTail_cases[where rsn=rsn and ?field1.0=f1 and th=th and h=h and m=m
            and allModels=allModels and ?ov1.0="createOverrides1 field ri" and ?st1.0=st1])
        case drop
        with tail have "st' = skip st1 f1" by simp
        with drop continue keeps show ?thesis by (simp add: f1_def field_def)
      next
        case error
        with tail show ?thesis by simp
      next
        case (keep st'' pf imps)
        with tail have "st'' = st'" by simp
        with keep continue keeps show ?thesis
          by (auto simp: f1_def field_def createField1_def split: option.splits)
      qed
    qed
  qed
  from all show "\<exists>g. visited st' = visited st @ [g] \<and> (g = field \<or> g = f1 \<or> g = rewriteType th f1)"
    by blast
  from all show "\<not> createKeeps rsn field0 \<Longrightarrow> result st' = result st" by blast
  from all show "createKeeps rsn field0 \<Longrightarrow>
           \<exists>pf. result st' = result st @ [pf] \<and> pf_field pf = rewriteType th f1
              \<and> o_isRequired (pf_overrides pf)
                  = (if isAnnotatedWith field0 DTO_CREATE_OPTIONAL then Some False
                     else o_isRequired (createOverrides1 field ri))
              \<and> o_type (pf_overrides pf) = o_type (createOverrides1 field ri)" by blast
qed

lemma emitted_lift:
  assumes run: "reduceFields body emptyAcc fs = Inr st"
    and dist: "distinct (map name fs)"
    and mem: "field \<in> set fs"
    and names: "\<And>rest f s s'. body rest f s = Inr s' \<Longrightarrow>
        result s' = result s \<or> (\<exists>pf. result s' = result s @ [pf] \<and> name (pf_field pf) = name f)"
    and step: "\<And>rest s s' pf. body rest field s = Inr s' \<Longrightarrow> result s' = result s @ [pf] \<Longrightarrow> Q pf"
  shows "\<forall>pf\<in>set (result st). name (pf_field pf) = name field \<longrightarrow> Q pf"
proof -
  let ?I = "\<lambda>pre s. \<forall>pf\<in>set (result s). name (pf_field pf) \<in> name ` set pre
                \<and> (name (pf_field pf) = name field \<longrightarrow> Q pf)"
  have "?I fs st"
  proof (rule reduceFields_invariant[OF run, of ?I])
    show "?I [] emptyAcc" by (simp add: emptyAcc_def)
  next
    fix p f q t t'
    assume fs: "fs = p @ f # q" and I: "?I p t" and b: "body q f t = Inr t'"
    from names[OF b] show "?I (p @ [f]) t'"
    proof
      assume "result t' = result t"
      with I show ?thesis by auto
    next
      assume "\<exists>pf. result t' = result t @ [pf] \<and> name (pf_field pf) = name f"
      then obtain pf where pf: "result t' = result t @ [pf]" "name (pf_field pf) = name f"
        by blast
      have "Q pf" if "name f = name field"
      proof -
        from fs have "f \<in> set fs" by simp
        with that mem dist have "f = field" by (meson distinct_map inj_onD)
        with b pf(1) show ?thesis using step by blast
      qed
      with pf I show ?thesis by auto
    qed
  qed
  then show ?thesis by blast
qed

lemma kept_lift:
  assumes run: "reduceFields body emptyAcc fs = Inr st"
    and mem: "field \<in> set fs"
    and names: "\<And>rest f s s'. body rest f s = Inr s' \<Longrightarrow>
        result s' = result s \<or> (\<exists>pf. result s' = result s @ [pf] \<and> name (pf_field pf) = name f)"
    and step: "\<And>rest s s'. body rest field s = Inr s' \<Longrightarrow> result s' \<noteq> result s"
  shows "\<exists>pf\<in>set (result st). name (pf_field pf) = name field"
proof -
  let ?I = "\<lambda>pre s. field \<in> set pre \<longrightarrow> (\<exists>pf\<in>set (result s). name (pf_field pf) = name field)"
  have "?I fs st"
  proof (rule reduceFields_invariant[OF run, of ?I])
    show "?I [] emptyAcc" by simp
  next
    fix p f q t t'
    assume fs: "fs = p @ f # q" and I: "?I p t" and b: "body q f t = Inr t'"
    show "?I (p @ [f]) t'"
    proof (cases "f = field")
      case True
      with names[OF b] step[of q t t'] b show ?thesis by auto
    next
      case False
      with names[OF b] I show ?thesis by auto
    qed
  qed
  with mem show ?thesis by blast
qed


lemma createField1_name [simp]: "name (createField1 f ri) = name f"
  by (simp add: createField1_def split: option.splits)

lemma createField_names:
  assumes "createField th h m allModels rsn rest f s = Inr s'"
  shows "result s' = result s \<or> (\<exists>pf. result s' = result s @ [pf] \<and> name (pf_field pf) = name f)"
proof (cases "createKeeps rsn f")
  case True
  from createField_Inr(3)[OF assms True] show ?thesis by auto
next
  case False
  from createField_Inr(2)[OF assms False] show ?thesis by simp
qed

lemma computeCreateDtoParams_Inr:
  assumes "computeCreateDtoParams th h m allModels = Inr out"
  obtains st where
    "reduceFields (createField th h m allModels (relationScalarKeys (modelFields m)))
       emptyAcc (modelFields m) = Inr st"
    "out = dtoParams th h m st" "p_fields out = result st"
    "modelFields (p_model out) = visited st"
  using assms
  by (auto simp: computeCreateDtoParams_def dtoParams_def split: sum.splits)

lemma compositeOverrides_list:
  "isList field \<Longrightarrow> o_isRequired (compositeOverrides field ri ov) = Some False"
  by (simp add: compositeOverrides_def Let_def)


text \<open>The example computations return.\<close>

lemma bookEntityParams_run:
  "computeEntityParams exampleTemplateHelpers exampleHelpers bookModel exampleModels
     = Inr bookEntityParams"
proof -
  have "\<not> isl (computeEntityParams exampleTemplateHelpers exampleHelpers bookModel exampleModels)"
    by code_simp
  then show ?thesis by (simp add: bookEntityParams_def)
qed

lemma bookCreateParams_run:
  "computeCreateDtoParams exampleTemplateHelpers exampleHelpers bookModel exampleModels
     = Inr bookCreateParams"
proof -
  have "\<not> isl (computeCreateDtoParams exampleTemplateHelpers exampleHelpers bookModel exampleModels)"
    by code_simp
  then show ?thesis by (simp add: bookCreateParams_def)
qed


lemma authorCreateParams_run:
  "computeCreateDtoParams exampleTemplateHelpers exampleHelpers authorModel exampleModels
     = Inr authorCreateParams"
proof -
  have "\<not> isl (computeCreateDtoParams exampleTemplateHelpers exampleHelpers authorModel exampleModels)"
    by code_simp
  then show ?thesis by (simp add: authorCreateParams_def)
qed




lemma createKeeps_reaches:
  "createKeeps rsn field =
     (createReachesDefaults rsn field
      \<and> (isAnnotatedWith field DTO_CREATE_OPTIONAL
          \<or> \<not> (isIdWithDefaultValue field \<or> isUpdatedAt field \<or> isRequiredWithDefaultValue field)))"
  by (auto simp: createKeeps_def createReachesDefaults_def)


lemma updateApiProperties_overrides [simp]:
  "o_isRequired (fst (updateApiProperties th h f ov a b)) = o_isRequired ov"
  "o_type (fst (updateApiProperties th h f ov a b)) = o_type ov"
  "o_isNullable (fst (updateApiProperties th h f ov a b)) = o_isNullable ov"
  "o_isList (fst (updateApiProperties th h f ov a b)) = o_isList ov"
  by (simp_all add: updateApiProperties_def Let_def)






lemma updateTailKeeps_reinclude [simp]:
  "updateTailKeeps rsn (reincludeIdentifier rsn' f) = updateTailKeeps rsn f"
  by (simp add: updateTailKeeps_def)







lemma createField1_type [simp]:
  "type (createField1 f ri) = type f" "isType (createField1 f ri) = isType f"
  by (simp_all add: createField1_def split: option.splits)

















lemma postCreateParams_run:
  "computeCreateDtoParams exampleTemplateHelpers exampleHelpers postModel postModels
     = Inr postCreateParams"
proof -
  have "\<not> isl (computeCreateDtoParams exampleTemplateHelpers exampleHelpers postModel postModels)"
    by code_simp
  then show ?thesis by (simp add: postCreateParams_def)
qed



section \<open>Claims\<close>



text \<open>
  Claim C2. Every relation field in the output of the Entity pipeline has, as resolved
  requiredness, the presence of the relation-required directive, and as resolved nullability
  false for a list, else false for a schema-required field, else the absence of the
  directive. Foreign keys are scalar fields: the relation field is not itself the name of a
  tracked foreign key.
\<close>

theorem entity_relation_requiredness:
  assumes "computeEntityParams th h m allModels = Inr out"
    and "pf \<in> set (p_fields out)"
    and "isRelation (pf_field pf)"
    and "name (pf_field pf) \<notin> set (relationScalarKeys (modelFields m))"
  shows "resolvedIsRequired pf = isAnnotatedWith (pf_field pf) DTO_RELATION_REQUIRED
       \<and> resolvedIsNullable pf =
           Some (if isList (pf_field pf) then False
                 else if isRequired (pf_field pf) then False
                 else \<not> isAnnotatedWith (pf_field pf) DTO_RELATION_REQUIRED)"
proof -
  from assms(2) obtain g where g: "g \<in> set (modelFields m)" "pf = entityParsed th h m g"
    by (auto simp: computeEntityParams_Inr(1)[OF assms(1)])
  from g(2) assms(3,4) have "isRelation g" "name g \<notin> set (relationScalarKeys (modelFields m))"
    by (simp_all add: isRelation_def)
  from entityOverrides_relation[OF this] g(2) show ?thesis
    by (simp add: resolvedIsRequired_def resolvedIsNullable_def noOverrides_def isAnnotatedWith_def)
qed

theorem entity_relation_requiredness_witness:
  "computeEntityParams exampleTemplateHelpers exampleHelpers bookModel exampleModels
     = Inr bookEntityParams
   \<and> p_fields bookEntityParams ! 3 \<in> set (p_fields bookEntityParams)
   \<and> isRelation (pf_field (p_fields bookEntityParams ! 3))
   \<and> name (pf_field (p_fields bookEntityParams ! 3)) \<notin> set (relationScalarKeys (modelFields bookModel))
   \<and> resolvedIsRequired (p_fields bookEntityParams ! 3) = False
   \<and> resolvedIsNullable (p_fields bookEntityParams ! 3) = Some False"
proof -
  let ?pf = "p_fields bookEntityParams ! 3"
  have mem: "?pf \<in> set (p_fields bookEntityParams)" by code_simp
  have rel: "isRelation (pf_field ?pf)" by code_simp
  have key: "name (pf_field ?pf) \<notin> set (relationScalarKeys (modelFields bookModel))" by code_simp
  have ann: "\<not> isAnnotatedWith (pf_field ?pf) DTO_RELATION_REQUIRED" by code_simp
  have req: "isRequired (pf_field ?pf)" by code_simp
  from entity_relation_requiredness[OF bookEntityParams_run mem rel key] ann req
  have "resolvedIsRequired ?pf = False \<and> resolvedIsNullable ?pf = Some False" by simp
  with bookEntityParams_run mem rel key show ?thesis by simp
qed

text \<open>
  Claim C3. A field of an entity with distinct field names that is a tracked foreign key of
  at least one relation field (in particular every such scalar) is, in the output of the
  Entity pipeline, required; it is not nullable when some owning relation is schema-required
  or carries the relation-required directive, and nullable when none is. It is in the output
  unless it carries the hide-from-entity directive.
\<close>

theorem entity_foreign_key_scalar:
  assumes "computeEntityParams th h m allModels = Inr out"
    and "distinct (map name (modelFields m))"
    and "field \<in> set (modelFields m)"
    and "isTrackedForeignKey m field"
  shows "(\<not> isAnnotatedWith field DTO_ENTITY_HIDDEN \<longrightarrow>
            (\<exists>pf\<in>set (p_fields out). name (pf_field pf) = name field))
       \<and> (\<forall>pf\<in>set (p_fields out). name (pf_field pf) = name field \<longrightarrow>
            resolvedIsRequired pf
            \<and> resolvedIsNullable pf = Some (\<not> anyOwningRelationRequired m field))"
proof -
  note out = computeEntityParams_Inr(1)[OF assms(1)]
  have "\<not> isAnnotatedWith field DTO_ENTITY_HIDDEN \<Longrightarrow>
            (\<exists>pf\<in>set (p_fields out). name (pf_field pf) = name field)"
  proof -
    assume "\<not> isAnnotatedWith field DTO_ENTITY_HIDDEN"
    with assms(3) have "entityParsed th h m field \<in> set (p_fields out)"
      by (simp add: out)
    then show ?thesis by (rule bexI[rotated]) simp
  qed
  moreover have "\<And>pf. pf \<in> set (p_fields out) \<Longrightarrow> name (pf_field pf) = name field \<Longrightarrow>
            resolvedIsRequired pf
            \<and> resolvedIsNullable pf = Some (\<not> anyOwningRelationRequired m field)"
  proof -
    fix pf assume "pf \<in> set (p_fields out)" and nm: "name (pf_field pf) = name field"
    then obtain g where g: "g \<in> set (modelFields m)" "pf = entityParsed th h m g"
      by (auto simp: out)
    with nm have "name g = name field" by simp
    with g(1) assms(2,3) have "g = field"
      by (meson distinct_map inj_onD)
    with g(2) entityOverrides_tracked[OF assms(2) assms(4)]
    show "resolvedIsRequired pf
            \<and> resolvedIsNullable pf = Some (\<not> anyOwningRelationRequired m field)"
      by (simp add: resolvedIsRequired_def resolvedIsNullable_def)
  qed
  ultimately show ?thesis by blast
qed

theorem entity_foreign_key_scalar_witness:
  "computeEntityParams exampleTemplateHelpers exampleHelpers bookModel exampleModels
     = Inr bookEntityParams
   \<and> distinct (map name (modelFields bookModel))
   \<and> bookAuthorId \<in> set (modelFields bookModel)
   \<and> kind bookAuthorId = KScalar
   \<and> isTrackedForeignKey bookModel bookAuthorId
   \<and> anyOwningRelationRequired bookModel bookAuthorId
   \<and> name (pf_field (p_fields bookEntityParams ! 2)) = name bookAuthorId
   \<and> resolvedIsRequired (p_fields bookEntityParams ! 2)
   \<and> resolvedIsNullable (p_fields bookEntityParams ! 2) = Some False"
proof -
  let ?pf = "p_fields bookEntityParams ! 2"
  have dist: "distinct (map name (modelFields bookModel))" by code_simp
  have mem: "bookAuthorId \<in> set (modelFields bookModel)" by code_simp
  have sc: "kind bookAuthorId = KScalar" by code_simp
  have fk: "isTrackedForeignKey bookModel bookAuthorId" by code_simp
  have own: "anyOwningRelationRequired bookModel bookAuthorId" by code_simp
  have pf: "?pf \<in> set (p_fields bookEntityParams)" by code_simp
  have nm: "name (pf_field ?pf) = name bookAuthorId" by code_simp
  from entity_foreign_key_scalar[OF bookEntityParams_run dist mem fk] pf nm own
  have "resolvedIsRequired ?pf \<and> resolvedIsNullable ?pf = Some False" by auto
  with bookEntityParams_run dist mem sc fk own nm show ?thesis by simp
qed

text \<open>
  Claim C4. A list-cardinality relation field of an entity with distinct field names for
  which the relation input synthesizer answers with more than one import record (the
  composite nested-input type) is never required in the output of the Create pipeline,
  whether or not it carries the relation-required directive.
\<close>

theorem create_list_relation_not_required:
  assumes run: "computeCreateDtoParams th h m allModels = Inr out"
    and dist: "distinct (map name (modelFields m))"
    and mem: "field \<in> set (modelFields m)"
    and rel: "isRelation field" and list: "isList field"
    and composite: "\<forall>fs. 1 < length (ri_imports (createInput th h m allModels fs
                       (reincludeIdentifier (relationScalarKeys (modelFields m)) field)))"
  shows "\<forall>pf\<in>set (p_fields out). name (pf_field pf) = name field \<longrightarrow> \<not> resolvedIsRequired pf"
proof -
  from run obtain st where
    st: "reduceFields (createField th h m allModels (relationScalarKeys (modelFields m)))
       emptyAcc (modelFields m) = Inr st" "p_fields out = result st"
    by (rule computeCreateDtoParams_Inr)
  have "\<forall>pf\<in>set (result st). name (pf_field pf) = name field \<longrightarrow> \<not> resolvedIsRequired pf"
  proof (rule emitted_lift[OF st(1) dist mem])
    fix rest f s s'
    assume "createField th h m allModels (relationScalarKeys (modelFields m)) rest f s = Inr s'"
    then show "result s' = result s \<or> (\<exists>pf. result s' = result s @ [pf] \<and> name (pf_field pf) = name f)"
      by (rule createField_names)
  next
    fix rest s s' pf
    assume b: "createField th h m allModels (relationScalarKeys (modelFields m)) rest field s = Inr s'"
      and r: "result s' = result s @ [pf]"
    show "\<not> resolvedIsRequired pf"
    proof (cases "createKeeps (relationScalarKeys (modelFields m)) field")
      case False
      from createField_Inr(2)[OF b False] r show ?thesis by simp
    next
      case True
      from createField_Inr(3)[OF b True] r rel list composite
      show ?thesis
        by (auto simp: resolvedIsRequired_def createOverrides1_def compositeOverrides_list)
    qed
  qed
  with st(2) show ?thesis by simp
qed

theorem create_list_relation_not_required_witness:
  "computeCreateDtoParams exampleTemplateHelpers exampleHelpers authorModel exampleModels
     = Inr authorCreateParams
   \<and> distinct (map name (modelFields authorModel))
   \<and> authorBooks \<in> set (modelFields authorModel)
   \<and> isRelation authorBooks \<and> isList authorBooks
   \<and> isAnnotatedWith authorBooks DTO_RELATION_REQUIRED
   \<and> name (pf_field (p_fields authorCreateParams ! 1)) = name authorBooks
   \<and> \<not> resolvedIsRequired (p_fields authorCreateParams ! 1)"
proof -
  let ?pf = "p_fields authorCreateParams ! 1"
  have dist: "distinct (map name (modelFields authorModel))" by code_simp
  have mem: "authorBooks \<in> set (modelFields authorModel)" by code_simp
  have rel: "isRelation authorBooks" by code_simp
  have list: "isList authorBooks" by code_simp
  have ann: "isAnnotatedWith authorBooks DTO_RELATION_REQUIRED" by code_simp
  have composite: "\<forall>fs. 1 < length (ri_imports (createInput exampleTemplateHelpers exampleHelpers
      authorModel exampleModels fs
      (reincludeIdentifier (relationScalarKeys (modelFields authorModel)) authorBooks)))"
    by (simp add: createInput_def exampleHelpers_def exampleShape_def authorBooks_def
          relationField_def scalarField_def isAnnotatedWith_def reincludeIdentifier_def Let_def)
  have pf: "?pf \<in> set (p_fields authorCreateParams)" by code_simp
  have nm: "name (pf_field ?pf) = name authorBooks" by code_simp
  from create_list_relation_not_required[OF authorCreateParams_run dist mem rel list composite]
    pf nm
  have "\<not> resolvedIsRequired ?pf" by blast
  with authorCreateParams_run dist mem rel list ann nm show ?thesis by simp
qed







text \<open>
  Claim C7, as stated, fails: the value is used as the type override as well, and the
  statement that does it stands inside the branch for relation fields. The relation
  \<^verbatim>\<open>author\<close> of Book, for which the synthesizer returns a direct reference and a coercion
  target, gets the target as its type override and in its documentation.
\<close>

theorem create_coercion_target_counterexample:
  "computeCreateDtoParams exampleTemplateHelpers exampleHelpers bookModel exampleModels
     = Inr bookCreateParams
   \<and> pf_field (p_fields bookCreateParams ! 2)
       = appendDocumentation bookAuthor (coercionNote ''() => ConnectAuthorDto'')
   \<and> isRelation bookAuthor \<and> \<not> isType bookAuthor
   \<and> o_type (pf_overrides (p_fields bookCreateParams ! 2)) = Some ''() => ConnectAuthorDto''
   \<and> resolvedType (p_fields bookCreateParams ! 2) = ''() => ConnectAuthorDto''"
proof -
  have "pf_field (p_fields bookCreateParams ! 2)
       = appendDocumentation bookAuthor (coercionNote ''() => ConnectAuthorDto'')" by code_simp
  moreover have "isRelation bookAuthor \<and> \<not> isType bookAuthor" by code_simp
  moreover have "o_type (pf_overrides (p_fields bookCreateParams ! 2))
                   = Some ''() => ConnectAuthorDto''" by code_simp
  moreover have "resolvedType (p_fields bookCreateParams ! 2) = ''() => ConnectAuthorDto''"
    by code_simp
  ultimately show ?thesis using bookCreateParams_run by simp
qed

text \<open>
  Claim C7, amended. In the Create pipeline, for an entity with distinct field names: the
  output of a field that is not a relation (so of every nested-structured-type field) keeps
  the documentation of the field and has no type override; the output of a relation field
  for which the synthesizer returns a direct reference (at most one import record) and a
  coercion target \<open>v\<close> has \<open>v\<close> as its type override, and the documentation of the field
  followed by a line break and the target, without its thunk prefix, between percent signs.
\<close>

theorem create_coercion_target:
  assumes run: "computeCreateDtoParams th h m allModels = Inr out"
    and dist: "distinct (map name (modelFields m))"
    and mem: "field \<in> set (modelFields m)"
    and pf: "pf \<in> set (p_fields out)"
    and nm: "name (pf_field pf) = name field"
  shows "(\<not> isRelation field \<longrightarrow>
            documentation (pf_field pf) = documentation field \<and> o_type (pf_overrides pf) = None)
       \<and> (isRelation field
           \<and> (\<forall>fs. \<not> 1 < length (ri_imports (createInput th h m allModels fs
                     (reincludeIdentifier (relationScalarKeys (modelFields m)) field)))
                  \<and> coercionTarget (createInput th h m allModels fs
                     (reincludeIdentifier (relationScalarKeys (modelFields m)) field)) = Some v) \<longrightarrow>
            o_type (pf_overrides pf) = Some v
            \<and> documentation (pf_field pf)
                = Some ((case documentation field of None \<Rightarrow> ''undefined'' | Some d \<Rightarrow> d)
                        @ coercionNote v))"
proof -
  let ?rsn = "relationScalarKeys (modelFields m)"
  let ?Q = "\<lambda>pf. (\<not> isRelation field \<longrightarrow>
            documentation (pf_field pf) = documentation field \<and> o_type (pf_overrides pf) = None)
       \<and> (isRelation field
           \<and> (\<forall>fs. \<not> 1 < length (ri_imports (createInput th h m allModels fs
                     (reincludeIdentifier ?rsn field)))
                  \<and> coercionTarget (createInput th h m allModels fs
                     (reincludeIdentifier ?rsn field)) = Some v) \<longrightarrow>
            o_type (pf_overrides pf) = Some v
            \<and> documentation (pf_field pf)
                = Some ((case documentation field of None \<Rightarrow> ''undefined'' | Some d \<Rightarrow> d)
                        @ coercionNote v))"
  from run obtain st where
    st: "reduceFields (createField th h m allModels ?rsn) emptyAcc (modelFields m) = Inr st"
      "p_fields out = result st"
    by (rule computeCreateDtoParams_Inr)
  have "\<forall>pf\<in>set (result st). name (pf_field pf) = name field \<longrightarrow> ?Q pf"
  proof (rule emitted_lift[OF st(1) dist mem createField_names])
    fix rest s s' pf
    assume b: "createField th h m allModels ?rsn rest field s = Inr s'"
      and r: "result s' = result s @ [pf]"
    show "?Q pf"
    proof (cases "createKeeps ?rsn field")
      case False
      from createField_Inr(2)[OF b False] r show ?thesis by simp
    next
      case True
      let ?f = "reincludeIdentifier ?rsn field"
      let ?ri = "createInput th h m allModels (visited s @ ?f # rest) ?f"
      from createField_Inr(3)[OF b True] r
      have pf: "pf_field pf = rewriteType th (createField1 ?f ?ri)"
        "o_type (pf_overrides pf) = o_type (createOverrides1 ?f ?ri)" by auto
      show ?thesis
      proof (cases "isRelation field")
        case False
        with pf show ?thesis
          by (simp add: createField1_def createOverrides1_def noOverrides_def)
      next
        case rel: True
        have "o_type (pf_overrides pf) = Some v
            \<and> documentation (pf_field pf)
                = Some ((case documentation field of None \<Rightarrow> ''undefined'' | Some d \<Rightarrow> d)
                        @ coercionNote v)"
          if "\<not> 1 < length (ri_imports ?ri)" "coercionTarget ?ri = Some v"
          using pf rel that
          by (simp add: createField1_def createOverrides1_def noOverrides_def
                appendDocumentation_def)
        with rel show ?thesis by blast
      qed
    qed
  qed simp
  with pf nm st(2) show ?thesis by simp
qed

theorem create_coercion_target_witness:
  "computeCreateDtoParams exampleTemplateHelpers exampleHelpers bookModel exampleModels
     = Inr bookCreateParams
   \<and> distinct (map name (modelFields bookModel))
   \<and> bookAuthor \<in> set (modelFields bookModel)
   \<and> p_fields bookCreateParams ! 2 \<in> set (p_fields bookCreateParams)
   \<and> name (pf_field (p_fields bookCreateParams ! 2)) = name bookAuthor
   \<and> isRelation bookAuthor
   \<and> documentation (pf_field (p_fields bookCreateParams ! 2))
       = Some (''undefined'' @ coercionNote ''() => ConnectAuthorDto'')"
proof -
  let ?pf = "p_fields bookCreateParams ! 2"
  let ?f = "reincludeIdentifier (relationScalarKeys (modelFields bookModel)) bookAuthor"
  have dist: "distinct (map name (modelFields bookModel))" by code_simp
  have mem: "bookAuthor \<in> set (modelFields bookModel)" by code_simp
  have pf: "?pf \<in> set (p_fields bookCreateParams)" by code_simp
  have nm: "name (pf_field ?pf) = name bookAuthor" by code_simp
  have rel: "isRelation bookAuthor" by code_simp
  have doc: "documentation bookAuthor = None" by code_simp
  have f: "?f = bookAuthor" by code_simp
  have shape: "\<forall>fs. \<not> 1 < length (ri_imports (createInput exampleTemplateHelpers exampleHelpers
                       bookModel exampleModels fs ?f))
                  \<and> coercionTarget (createInput exampleTemplateHelpers exampleHelpers
                       bookModel exampleModels fs ?f) = Some ''() => ConnectAuthorDto''"
    unfolding f
    by (simp add: createInput_def exampleHelpers_def exampleShape_def bookAuthor_def
          relationField_def scalarField_def isAnnotatedWith_def coercionTarget_def Let_def)
  from create_coercion_target[OF bookCreateParams_run dist mem pf nm,
      of "''() => ConnectAuthorDto''"] rel shape doc
  have "documentation (pf_field ?pf)
       = Some (''undefined'' @ coercionNote ''() => ConnectAuthorDto'')" by simp
  with bookCreateParams_run dist mem pf nm rel show ?thesis by blast
qed




text \<open>
  Claim C9, as stated, fails in its second half: a field that carries the create-optional
  directive is still dropped by the rules that come before the one on defaults. The foreign
  key \<^verbatim>\<open>authorId\<close> of Post is required with a default value and create-optional, and is not
  in the output, as a tracked foreign-key scalar without the relation-include-identifier
  directive.
\<close>

theorem create_defaulted_field_counterexample:
  "isRequiredWithDefaultValue postAuthorId
   \<and> isAnnotatedWith postAuthorId DTO_CREATE_OPTIONAL
   \<and> postAuthorId \<in> set (modelFields postModel)
   \<and> computeCreateDtoParams exampleTemplateHelpers exampleHelpers postModel postModels
       = Inr postCreateParams
   \<and> map (name \<circ> pf_field) (p_fields postCreateParams) = [''author'', ''updatedAt'']"
proof -
  have "isRequiredWithDefaultValue postAuthorId" by code_simp
  moreover have "isAnnotatedWith postAuthorId DTO_CREATE_OPTIONAL" by code_simp
  moreover have "postAuthorId \<in> set (modelFields postModel)" by code_simp
  moreover have "map (name \<circ> pf_field) (p_fields postCreateParams) = [''author'', ''updatedAt'']"
    by code_simp
  ultimately show ?thesis using postCreateParams_run by simp
qed

text \<open>
  Claim C9, amended. In the Create pipeline, for an entity with distinct field names, a
  field that is an identifier with a default value, an automatic timestamp or required with
  a default value is not in the output when it does not carry the create-optional
  directive; when it does, it is in the output exactly when no earlier rule drops it (it is
  not hidden from creation, not read-only, not a relation without a create-time modifier,
  not a tracked foreign key without the relation-include-identifier directive), and then
  its resolved requiredness is false.
\<close>

theorem create_defaulted_field:
  assumes run: "computeCreateDtoParams th h m allModels = Inr out"
    and dist: "distinct (map name (modelFields m))"
    and mem: "field \<in> set (modelFields m)"
    and classified: "isIdWithDefaultValue field \<or> isUpdatedAt field \<or> isRequiredWithDefaultValue field"
  shows "(\<not> isAnnotatedWith field DTO_CREATE_OPTIONAL \<longrightarrow>
            (\<forall>pf\<in>set (p_fields out). name (pf_field pf) \<noteq> name field))
       \<and> (isAnnotatedWith field DTO_CREATE_OPTIONAL \<longrightarrow>
            (\<forall>pf\<in>set (p_fields out). name (pf_field pf) = name field \<longrightarrow> \<not> resolvedIsRequired pf)
            \<and> ((\<exists>pf\<in>set (p_fields out). name (pf_field pf) = name field)
                 = createReachesDefaults (relationScalarKeys (modelFields m)) field))"
proof -
  let ?rsn = "relationScalarKeys (modelFields m)"
  from run obtain st where
    st: "reduceFields (createField th h m allModels ?rsn) emptyAcc (modelFields m) = Inr st"
      "p_fields out = result st"
    by (rule computeCreateDtoParams_Inr)
  note lift = emitted_lift[OF st(1) dist mem createField_names]
  have keeps: "\<forall>pf\<in>set (result st). name (pf_field pf) = name field \<longrightarrow> createKeeps ?rsn field"
  proof (rule lift)
    fix rest s s' pf
    assume b: "createField th h m allModels ?rsn rest field s = Inr s'"
      and r: "result s' = result s @ [pf]"
    show "createKeeps ?rsn field"
    proof (rule ccontr)
      assume "\<not> createKeeps ?rsn field"
      from createField_Inr(2)[OF b this] r show False by simp
    qed
  qed simp
  have opt: "\<forall>pf\<in>set (result st). name (pf_field pf) = name field \<longrightarrow>
               (isAnnotatedWith field DTO_CREATE_OPTIONAL \<longrightarrow> \<not> resolvedIsRequired pf)"
  proof (rule lift)
    fix rest s s' pf
    assume b: "createField th h m allModels ?rsn rest field s = Inr s'"
      and r: "result s' = result s @ [pf]"
    show "isAnnotatedWith field DTO_CREATE_OPTIONAL \<longrightarrow> \<not> resolvedIsRequired pf"
    proof (cases "createKeeps ?rsn field")
      case False
      from createField_Inr(2)[OF b False] r show ?thesis by simp
    next
      case True
      from createField_Inr(3)[OF b True] r show ?thesis
        by (auto simp: resolvedIsRequired_def)
    qed
  qed simp
  have incl: "\<exists>pf\<in>set (result st). name (pf_field pf) = name field" if k: "createKeeps ?rsn field"
  proof (rule kept_lift[OF st(1) mem createField_names])
    fix rest s s'
    assume b: "createField th h m allModels ?rsn rest field s = Inr s'"
    from createField_Inr(3)[OF b k] show "result s' \<noteq> result s" by auto
  qed simp
  show ?thesis
  proof (cases "isAnnotatedWith field DTO_CREATE_OPTIONAL")
    case False
    with classified have "\<not> createKeeps ?rsn field" by (simp add: createKeeps_reaches)
    with keeps have "\<forall>pf\<in>set (result st). name (pf_field pf) \<noteq> name field" by blast
    with False st(2) show ?thesis by simp
  next
    case True
    then have k: "createKeeps ?rsn field = createReachesDefaults ?rsn field"
      by (simp add: createKeeps_reaches)
    have "(\<exists>pf\<in>set (result st). name (pf_field pf) = name field)
            = createReachesDefaults ?rsn field"
      using keeps incl unfolding k by blast
    moreover from opt True
    have "\<forall>pf\<in>set (result st). name (pf_field pf) = name field \<longrightarrow> \<not> resolvedIsRequired pf"
      by blast
    ultimately show ?thesis using True st(2) by simp
  qed
qed

theorem create_defaulted_field_witness:
  "computeCreateDtoParams exampleTemplateHelpers exampleHelpers postModel postModels
     = Inr postCreateParams
   \<and> distinct (map name (modelFields postModel))
   \<and> postUpdatedAt \<in> set (modelFields postModel)
   \<and> isUpdatedAt postUpdatedAt
   \<and> isAnnotatedWith postUpdatedAt DTO_CREATE_OPTIONAL
   \<and> createReachesDefaults (relationScalarKeys (modelFields postModel)) postUpdatedAt
   \<and> (\<exists>pf\<in>set (p_fields postCreateParams). name (pf_field pf) = name postUpdatedAt)
   \<and> name (pf_field (p_fields postCreateParams ! 1)) = name postUpdatedAt
   \<and> \<not> resolvedIsRequired (p_fields postCreateParams ! 1)"
proof -
  let ?pf = "p_fields postCreateParams ! 1"
  have dist: "distinct (map name (modelFields postModel))" by code_simp
  have mem: "postUpdatedAt \<in> set (modelFields postModel)" by code_simp
  have upd: "isUpdatedAt postUpdatedAt" by code_simp
  have opt: "isAnnotatedWith postUpdatedAt DTO_CREATE_OPTIONAL" by code_simp
  have reach: "createReachesDefaults (relationScalarKeys (modelFields postModel)) postUpdatedAt"
    by code_simp
  have pf: "?pf \<in> set (p_fields postCreateParams)" by code_simp
  have nm: "name (pf_field ?pf) = name postUpdatedAt" by code_simp
  have classified: "isIdWithDefaultValue postUpdatedAt \<or> isUpdatedAt postUpdatedAt
                      \<or> isRequiredWithDefaultValue postUpdatedAt"
    using upd by simp
  note inst = create_defaulted_field[OF postCreateParams_run dist mem classified]
  from inst opt reach have ex: "\<exists>pf\<in>set (p_fields postCreateParams). name (pf_field pf) = name postUpdatedAt"
    by blast
  from inst opt pf nm have "\<not> resolvedIsRequired ?pf" by blast
  with postCreateParams_run dist mem upd opt reach ex nm show ?thesis by blast
qed



end
